theory Spec2Isabelle
  imports Main "HOL-Library.Word"
begin

unbundle bit_operations_syntax

section \<open>oauth2-cli: configuration resolution\<close>

text \<open>
  The program is one Go file (\<^verbatim>\<open>package main\<close>) with the functions \<^verbatim>\<open>loadConfig\<close>,
  \<^verbatim>\<open>main\<close>, \<^verbatim>\<open>checkNonce\<close>, \<^verbatim>\<open>randString\<close> and \<^verbatim>\<open>required\<close>. The embedding follows
  the variant with the OIDC nonce (the one that declares \<^verbatim>\<open>CodeParam\<close> and \<^verbatim>\<open>OIDCNonce\<close>);
  the other variant has the same \<^verbatim>\<open>loadConfig\<close> lines for the fields the two share.

  Go strings are byte strings and are modelled as \<^typ>\<open>string\<close>. Calls into packages
  that are not part of the repository (\<^verbatim>\<open>os\<close>, \<^verbatim>\<open>encoding/json\<close>, \<^verbatim>\<open>flag\<close>, \<^verbatim>\<open>net/url\<close>,
  \<^verbatim>\<open>net/http\<close>, \<^verbatim>\<open>oauth2\<close>) are represented by what they hand back to the program.
\<close>

subsection \<open>The configuration struct\<close>

record config =
  Interface :: string
  Port :: int
  Callback :: string
  ClientID :: string
  ClientSecret :: string
  AuthURL :: string
  TokenURL :: string
  CodeParam :: string
  Scope :: string
  OIDCNonce :: bool
  Verbose :: bool

text \<open>The composite literal at the top of \<^verbatim>\<open>loadConfig\<close>; unnamed fields are Go zero values.\<close>

definition builtin :: config where
  "builtin = \<lparr>Interface = ''127.0.0.1'', Port = 8081, Callback = ''/oauth/callback'',
     ClientID = '''', ClientSecret = '''', AuthURL = '''', TokenURL = '''',
     CodeParam = ''code'', Scope = '''', OIDCNonce = False, Verbose = False\<rparr>"

subsection \<open>The defaults file\<close>

text \<open>
  What \<^verbatim>\<open>json.NewDecoder(defaultsFile).Decode(&conf)\<close> finds in a well-formed file: for
  each JSON key of the struct tags either a value (\<open>Some\<close>) or nothing (\<open>None\<close>: the key
  is absent or \<^verbatim>\<open>null\<close>). Decoding into an existing struct overwrites exactly the fields
  the object mentions.
\<close>

record file_values =
  j_interface :: "string option"
  j_port :: "int option"
  j_callback :: "string option"
  j_client_id :: "string option"
  j_client_secret :: "string option"
  j_auth_url :: "string option"
  j_token_url :: "string option"
  j_code_param :: "string option"
  j_scopes :: "string option"
  j_nonce :: "bool option"
  j_verbose :: "bool option"

text \<open>
  The outcomes of \<^verbatim>\<open>os.Open\<close> followed by \<^verbatim>\<open>Decode\<close>: the file is not there
  (\<^verbatim>\<open>os.IsNotExist(err)\<close>), it cannot be opened for another reason, \<^verbatim>\<open>Decode\<close> returns an
  error (the first JSON value of the file is not well-formed or does not fit the struct),
  or \<^verbatim>\<open>Decode\<close> returns \<^verbatim>\<open>nil\<close>. \<^verbatim>\<open>Decode\<close> is called once and reads one JSON value: in
  \<open>Decoded_then\<close> the file goes on after that value with the given text, of any content,
  which the program never reads.
\<close>

datatype defaults_file =
    NotExist
  | OpenFailed string
  | DecodeFailed string
  | Decoded file_values
  | Decoded_then file_values string

definition or_else :: "'a option \<Rightarrow> 'a \<Rightarrow> 'a" where
  "or_else v d = (case v of None \<Rightarrow> d | Some x \<Rightarrow> x)"

definition Decode :: "file_values \<Rightarrow> config \<Rightarrow> config" where
  "Decode fv conf =
     \<lparr>Interface = or_else (j_interface fv) (Interface conf),
      Port = or_else (j_port fv) (Port conf),
      Callback = or_else (j_callback fv) (Callback conf),
      ClientID = or_else (j_client_id fv) (ClientID conf),
      ClientSecret = or_else (j_client_secret fv) (ClientSecret conf),
      AuthURL = or_else (j_auth_url fv) (AuthURL conf),
      TokenURL = or_else (j_token_url fv) (TokenURL conf),
      CodeParam = or_else (j_code_param fv) (CodeParam conf),
      Scope = or_else (j_scopes fv) (Scope conf),
      OIDCNonce = or_else (j_nonce fv) (OIDCNonce conf),
      Verbose = or_else (j_verbose fv) (Verbose conf)\<rparr>"

subsection \<open>The command line\<close>

text \<open>
  The command line as \<^verbatim>\<open>flag.Parse\<close> walks it, left to right: each element is one
  occurrence of a defined flag with its parsed value, or an argument the \<^verbatim>\<open>flag\<close>
  package does not accept (an undefined flag, a missing value, a value that is not an
  integer or a boolean, \<^verbatim>\<open>-h\<close>). The flags are registered on \<^verbatim>\<open>flag.CommandLine\<close>, whose
  error handling is \<^verbatim>\<open>ExitOnError\<close>: at the first argument it does not accept, \<^verbatim>\<open>Parse\<close>
  prints the usage and ends the process.
\<close>

datatype flag_arg =
    F_interface string
  | F_port int
  | F_callback string
  | F_id string
  | F_secret string
  | F_auth string
  | F_token string
  | F_code string
  | F_scope string
  | F_oidc_nonce bool
  | F_verbose bool
  | F_rejected string

text \<open>How the process can end before the listener starts.\<close>

datatype exit =
    Fatal_open string       \<comment> \<open>\<^verbatim>\<open>log.Fatalf("failed to open %q: %s\n", ...)\<close>\<close>
  | Fatal_parse string      \<comment> \<open>\<^verbatim>\<open>log.Fatalf("failed to parse %q: %s", ...)\<close>\<close>
  | Fatal_required string   \<comment> \<open>\<^verbatim>\<open>log.Fatalf("-%s is a required flag\n", flag)\<close>\<close>
  | Fatal_callback string   \<comment> \<open>\<^verbatim>\<open>log.Fatalln(err)\<close> after \<^verbatim>\<open>url.Parse\<close>\<close>
  | Flag_exit string        \<comment> \<open>the exit inside \<^verbatim>\<open>flag.Parse\<close>\<close>
  | Rand_fatal              \<comment> \<open>the fatal error inside \<^verbatim>\<open>rand.Read\<close> since Go 1.24\<close>

text \<open>
  \<^verbatim>\<open>flag.StringVar(p, name, value, usage)\<close> stores \<open>value\<close> in \<open>*p\<close> when the flag is
  registered. Ten of the eleven registrations pass the field's own current value; the
  registration of \<^verbatim>\<open>-token\<close> passes \<^verbatim>\<open>conf.AuthURL\<close>.
\<close>

definition register_flags :: "config \<Rightarrow> config" where
  "register_flags c0 =
     (let c1 = c0\<lparr>Interface := Interface c0\<rparr>;
          c2 = c1\<lparr>Port := Port c1\<rparr>;
          c3 = c2\<lparr>Callback := Callback c2\<rparr>;
          c4 = c3\<lparr>ClientID := ClientID c3\<rparr>;
          c5 = c4\<lparr>ClientSecret := ClientSecret c4\<rparr>;
          c6 = c5\<lparr>AuthURL := AuthURL c5\<rparr>;
          c7 = c6\<lparr>TokenURL := AuthURL c6\<rparr>;
          c8 = c7\<lparr>CodeParam := CodeParam c7\<rparr>;
          c9 = c8\<lparr>Scope := Scope c8\<rparr>;
          c10 = c9\<lparr>OIDCNonce := OIDCNonce c9\<rparr>
      in c10\<lparr>Verbose := Verbose c10\<rparr>)"

text \<open>One accepted occurrence of a flag stores its value through the registered pointer.\<close>

fun flag_Set :: "flag_arg \<Rightarrow> config \<Rightarrow> exit + config" where
  "flag_Set (F_interface v) c = Inr (c\<lparr>Interface := v\<rparr>)"
| "flag_Set (F_port v) c = Inr (c\<lparr>Port := v\<rparr>)"
| "flag_Set (F_callback v) c = Inr (c\<lparr>Callback := v\<rparr>)"
| "flag_Set (F_id v) c = Inr (c\<lparr>ClientID := v\<rparr>)"
| "flag_Set (F_secret v) c = Inr (c\<lparr>ClientSecret := v\<rparr>)"
| "flag_Set (F_auth v) c = Inr (c\<lparr>AuthURL := v\<rparr>)"
| "flag_Set (F_token v) c = Inr (c\<lparr>TokenURL := v\<rparr>)"
| "flag_Set (F_code v) c = Inr (c\<lparr>CodeParam := v\<rparr>)"
| "flag_Set (F_scope v) c = Inr (c\<lparr>Scope := v\<rparr>)"
| "flag_Set (F_oidc_nonce v) c = Inr (c\<lparr>OIDCNonce := v\<rparr>)"
| "flag_Set (F_verbose v) c = Inr (c\<lparr>Verbose := v\<rparr>)"
| "flag_Set (F_rejected a) c = Inl (Flag_exit a)"

fun flag_Parse :: "flag_arg list \<Rightarrow> config \<Rightarrow> exit + config" where
  "flag_Parse [] c = Inr c"
| "flag_Parse (a # as) c =
     (case flag_Set a c of Inl e \<Rightarrow> Inl e | Inr c' \<Rightarrow> flag_Parse as c')"

subsection \<open>\<^verbatim>\<open>required\<close> and \<^verbatim>\<open>loadConfig\<close>\<close>

text \<open>Sequencing of steps that may end the process: the first exit wins.\<close>

definition and_then :: "'e + 'a \<Rightarrow> ('a \<Rightarrow> 'e + 'b) \<Rightarrow> 'e + 'b" where
  "and_then r f = (case r of Inl e \<Rightarrow> Inl e | Inr x \<Rightarrow> f x)"

definition required :: "string \<Rightarrow> string \<Rightarrow> exit + unit" where
  "required flag val = (if val = '''' then Inl (Fatal_required flag) else Inr ())"

definition open_and_decode :: "defaults_file \<Rightarrow> config \<Rightarrow> exit + config" where
  "open_and_decode file conf =
     (case file of
        NotExist \<Rightarrow> Inr conf
      | OpenFailed e \<Rightarrow> Inl (Fatal_open e)
      | DecodeFailed e \<Rightarrow> Inl (Fatal_parse e)
      | Decoded fv \<Rightarrow> Inr (Decode fv conf)
      | Decoded_then fv rest \<Rightarrow> Inr (Decode fv conf))"

definition check_required :: "config \<Rightarrow> exit + config" where
  "check_required conf =
     and_then (required ''auth'' (AuthURL conf)) (\<lambda>_.
     and_then (required ''token'' (TokenURL conf)) (\<lambda>_.
     and_then (required ''id'' (ClientID conf)) (\<lambda>_.
     and_then (required ''secret'' (ClientSecret conf)) (\<lambda>_.
     Inr conf))))"

definition loadConfig :: "defaults_file \<Rightarrow> flag_arg list \<Rightarrow> exit + config" where
  "loadConfig file args =
     and_then (open_and_decode file builtin) (\<lambda>conf.
     and_then (flag_Parse args (register_flags conf)) (\<lambda>conf'.
     check_required conf'))"

text \<open>
  The configuration the process holds when it stops walking the command line: every
  accepted occurrence before the first argument the \<^verbatim>\<open>flag\<close> package does not accept has
  been stored. It is what \<^verbatim>\<open>required\<close> looks at when the whole command line is accepted.
\<close>

fun stored :: "flag_arg list \<Rightarrow> config \<Rightarrow> config" where
  "stored [] c = c"
| "stored (a # as) c = (case flag_Set a c of Inl e \<Rightarrow> c | Inr c' \<Rightarrow> stored as c')"

definition merged :: "defaults_file \<Rightarrow> flag_arg list \<Rightarrow> config" where
  "merged file args =
     stored args
       (register_flags
          (case file of
             Decoded fv \<Rightarrow> Decode fv builtin
           | Decoded_then fv rest \<Rightarrow> Decode fv builtin
           | _ \<Rightarrow> builtin))"

fun is_rejected :: "flag_arg \<Rightarrow> bool" where
  "is_rejected (F_rejected a) = True"
| "is_rejected _ = False"

text \<open>
  The two failures of the defaults file: \<^verbatim>\<open>os.Open\<close> returns an error other than
  "does not exist", and \<^verbatim>\<open>Decode\<close> returns an error.
\<close>

definition unreadable :: "defaults_file \<Rightarrow> bool" where
  "unreadable file = (case file of OpenFailed e \<Rightarrow> True | _ \<Rightarrow> False)"

definition malformed :: "defaults_file \<Rightarrow> bool" where
  "malformed file = (case file of DecodeFailed e \<Rightarrow> True | _ \<Rightarrow> False)"

definition missing_required :: "config \<Rightarrow> bool" where
  "missing_required c \<longleftrightarrow>
     AuthURL c = '''' \<or> TokenURL c = '''' \<or> ClientID c = '''' \<or> ClientSecret c = ''''"

text \<open>
  The rule of the specification for one field, in its words: the value given on the
  command line when there is one, otherwise the value of the file when there is one,
  otherwise the built-in default. On a command line that repeats a flag the \<^verbatim>\<open>flag\<close>
  package keeps the last occurrence.
\<close>

definition spec_resolve :: "'a option \<Rightarrow> 'a option \<Rightarrow> 'a \<Rightarrow> 'a" where
  "spec_resolve cli file dflt = or_else cli (or_else file dflt)"

fun cli_token :: "flag_arg list \<Rightarrow> string option" where
  "cli_token [] = None"
| "cli_token (F_token v # as) = (case cli_token as of None \<Rightarrow> Some v | Some w \<Rightarrow> Some w)"
| "cli_token (_ # as) = cli_token as"

fun cli_auth :: "flag_arg list \<Rightarrow> string option" where
  "cli_auth [] = None"
| "cli_auth (F_auth v # as) = (case cli_auth as of None \<Rightarrow> Some v | Some w \<Rightarrow> Some w)"
| "cli_auth (_ # as) = cli_auth as"

fun cli_scope :: "flag_arg list \<Rightarrow> string option" where
  "cli_scope [] = None"
| "cli_scope (F_scope v # as) = (case cli_scope as of None \<Rightarrow> Some v | Some w \<Rightarrow> Some w)"
| "cli_scope (_ # as) = cli_scope as"

definition file_of :: "defaults_file \<Rightarrow> file_values" where
  "file_of file =
     (case file of
        Decoded fv \<Rightarrow> fv
      | Decoded_then fv rest \<Rightarrow> fv
      | _ \<Rightarrow> \<lparr>j_interface = None, j_port = None, j_callback = None, j_client_id = None,
             j_client_secret = None, j_auth_url = None, j_token_url = None,
             j_code_param = None, j_scopes = None, j_nonce = None, j_verbose = None\<rparr>)"

fun cli_interface :: "flag_arg list \<Rightarrow> string option" where
  "cli_interface [] = None"
| "cli_interface (F_interface v # as) =
     (case cli_interface as of None \<Rightarrow> Some v | Some w \<Rightarrow> Some w)"
| "cli_interface (_ # as) = cli_interface as"

fun cli_port :: "flag_arg list \<Rightarrow> int option" where
  "cli_port [] = None"
| "cli_port (F_port v # as) = (case cli_port as of None \<Rightarrow> Some v | Some w \<Rightarrow> Some w)"
| "cli_port (_ # as) = cli_port as"

fun cli_callback :: "flag_arg list \<Rightarrow> string option" where
  "cli_callback [] = None"
| "cli_callback (F_callback v # as) =
     (case cli_callback as of None \<Rightarrow> Some v | Some w \<Rightarrow> Some w)"
| "cli_callback (_ # as) = cli_callback as"

fun cli_id :: "flag_arg list \<Rightarrow> string option" where
  "cli_id [] = None"
| "cli_id (F_id v # as) = (case cli_id as of None \<Rightarrow> Some v | Some w \<Rightarrow> Some w)"
| "cli_id (_ # as) = cli_id as"

fun cli_secret :: "flag_arg list \<Rightarrow> string option" where
  "cli_secret [] = None"
| "cli_secret (F_secret v # as) = (case cli_secret as of None \<Rightarrow> Some v | Some w \<Rightarrow> Some w)"
| "cli_secret (_ # as) = cli_secret as"

fun cli_code :: "flag_arg list \<Rightarrow> string option" where
  "cli_code [] = None"
| "cli_code (F_code v # as) = (case cli_code as of None \<Rightarrow> Some v | Some w \<Rightarrow> Some w)"
| "cli_code (_ # as) = cli_code as"

fun cli_oidc_nonce :: "flag_arg list \<Rightarrow> bool option" where
  "cli_oidc_nonce [] = None"
| "cli_oidc_nonce (F_oidc_nonce v # as) =
     (case cli_oidc_nonce as of None \<Rightarrow> Some v | Some w \<Rightarrow> Some w)"
| "cli_oidc_nonce (_ # as) = cli_oidc_nonce as"

fun cli_verbose :: "flag_arg list \<Rightarrow> bool option" where
  "cli_verbose [] = None"
| "cli_verbose (F_verbose v # as) =
     (case cli_verbose as of None \<Rightarrow> Some v | Some w \<Rightarrow> Some w)"
| "cli_verbose (_ # as) = cli_verbose as"

text \<open>
  The merge of the specification, every field by its rule: command line, else file, else
  built-in value. It is written from the specification's words and does not look at
  \<^verbatim>\<open>loadConfig\<close>.
\<close>

definition spec_merged :: "defaults_file \<Rightarrow> flag_arg list \<Rightarrow> config" where
  "spec_merged file args =
     \<lparr>Interface = spec_resolve (cli_interface args) (j_interface (file_of file)) (Interface builtin),
      Port = spec_resolve (cli_port args) (j_port (file_of file)) (Port builtin),
      Callback = spec_resolve (cli_callback args) (j_callback (file_of file)) (Callback builtin),
      ClientID = spec_resolve (cli_id args) (j_client_id (file_of file)) (ClientID builtin),
      ClientSecret =
        spec_resolve (cli_secret args) (j_client_secret (file_of file)) (ClientSecret builtin),
      AuthURL = spec_resolve (cli_auth args) (j_auth_url (file_of file)) (AuthURL builtin),
      TokenURL = spec_resolve (cli_token args) (j_token_url (file_of file)) (TokenURL builtin),
      CodeParam = spec_resolve (cli_code args) (j_code_param (file_of file)) (CodeParam builtin),
      Scope = spec_resolve (cli_scope args) (j_scopes (file_of file)) (Scope builtin),
      OIDCNonce = spec_resolve (cli_oidc_nonce args) (j_nonce (file_of file)) (OIDCNonce builtin),
      Verbose = spec_resolve (cli_verbose args) (j_verbose (file_of file)) (Verbose builtin)\<rparr>"

text \<open>
  The runs on which the default that the registration of \<^verbatim>\<open>-token\<close> takes from the
  authorization URL cannot show: the token URL is given on the command line, or the file
  gives the same for \<^verbatim>\<open>token_url\<close> and \<^verbatim>\<open>auth_url\<close> (in particular neither, or no file).
\<close>

definition token_default_hidden :: "defaults_file \<Rightarrow> flag_arg list \<Rightarrow> bool" where
  "token_default_hidden file args \<longleftrightarrow>
     cli_token args \<noteq> None \<or> j_token_url (file_of file) = j_auth_url (file_of file)"

fun first_rejected :: "flag_arg list \<Rightarrow> string option" where
  "first_rejected [] = None"
| "first_rejected (F_rejected a # as) = Some a"
| "first_rejected (_ # as) = first_rejected as"

section \<open>State and nonce generation\<close>

subsection \<open>\<^verbatim>\<open>base64.StdEncoding.EncodeToString\<close>\<close>

type_synonym byte = "8 word"

definition encodeStd :: string where
  "encodeStd = ''ABCDEFGHIJKLMNOPQRSTUVWXYZabcdefghijklmnopqrstuvwxyz0123456789+/''"

text \<open>\<^verbatim>\<open>enc.encode[val>>k&0x3F]\<close>, with \<open>val\<close> the Go \<^verbatim>\<open>uint\<close> that holds up to three bytes.\<close>

definition sextet :: "64 word \<Rightarrow> nat \<Rightarrow> char" where
  "sextet val k = encodeStd ! unat (drop_bit k val AND 0x3F)"

text \<open>The 24 bits of one group: \<^verbatim>\<open>uint(src[0])<<16 | uint(src[1])<<8 | uint(src[2])\<close>.\<close>

definition group24 :: "byte \<Rightarrow> byte \<Rightarrow> byte \<Rightarrow> 64 word" where
  "group24 a b c = push_bit 16 (ucast a) OR push_bit 8 (ucast b) OR ucast c"

text \<open>
  The encoder's loop over whole groups of three bytes, then the remainder of one or two
  bytes, padded with \<^verbatim>\<open>=\<close> (the standard encoding has \<^verbatim>\<open>StdPadding\<close>).
\<close>

fun EncodeToString :: "byte list \<Rightarrow> string" where
  "EncodeToString (a # b # c # src) =
     (let val = push_bit 16 (ucast a) OR push_bit 8 (ucast b) OR ucast c
      in sextet val 18 # sextet val 12 # sextet val 6 # sextet val 0 # EncodeToString src)"
| "EncodeToString [a, b] =
     (let val = push_bit 16 (ucast a) OR push_bit 8 (ucast b)
      in [sextet val 18, sextet val 12, sextet val 6, CHR ''=''])"
| "EncodeToString [a] =
     (let val = push_bit 16 (ucast a)
      in [sextet val 18, sextet val 12, CHR ''='', CHR ''=''])"
| "EncodeToString [] = []"

subsection \<open>\<^verbatim>\<open>crypto/rand\<close> and \<^verbatim>\<open>randString\<close>\<close>

text \<open>
  The repository does not fix the Go release it is built with, and \<^verbatim>\<open>crypto/rand.Read\<close>
  changed with Go 1.24. In both it fills the buffer from the random source
  (\<^verbatim>\<open>io.ReadFull\<close>). Before Go 1.24 a read that fails or comes short returns the number of
  bytes read and an error, with the front of the buffer overwritten. Since Go 1.24
  \<^verbatim>\<open>Read\<close> never returns an error: when the source fails, the run-time system ends the
  process with a fatal error.
\<close>

datatype toolchain = Before_1_24 | Since_1_24

text \<open>
  The random source is the sequence of its successive reads; one read is the bytes it
  delivers, and a source with no read left delivers nothing. A read that succeeds
  delivers exactly \<open>len(buf)\<close> bytes.
\<close>

type_synonym rand_source = "byte list list"

definition rand_Read ::
    "toolchain \<Rightarrow> rand_source \<Rightarrow> byte list \<Rightarrow> exit + (byte list \<times> bool) \<times> rand_source" where
  "rand_Read tc src buf =
     (let (d, src') = (case src of [] \<Rightarrow> ([], []) | d # src' \<Rightarrow> (d, src'));
          short = length d < length buf
      in if short \<and> tc = Since_1_24 then Inl Rand_fatal
         else Inr ((take (length buf) d @ drop (length d) buf, short), src'))"

text \<open>
  \<^verbatim>\<open>randString\<close> calls \<^verbatim>\<open>rand.Read(buf)\<close> as a statement: when the call returns, both of
  its results are dropped.
\<close>

definition randString :: "toolchain \<Rightarrow> rand_source \<Rightarrow> exit + string \<times> rand_source" where
  "randString tc src =
     (let buf = replicate 32 0 in
      and_then (rand_Read tc src buf) (\<lambda>((buf', err), src').
      Inr (EncodeToString buf', src')))"


section \<open>The authorization request\<close>

subsection \<open>\<^verbatim>\<open>fmt.Sprintf("%s:%d", ...)\<close>\<close>

fun decimal :: "nat \<Rightarrow> string" where
  "decimal n =
     (if n < 10 then [''0123456789'' ! n]
      else decimal (n div 10) @ [''0123456789'' ! (n mod 10)])"

definition fmt_d :: "int \<Rightarrow> string" where
  "fmt_d i = (if i < 0 then CHR ''-'' # decimal (nat (- i)) else decimal (nat i))"

definition host_port :: "config \<Rightarrow> string" where
  "host_port conf = Interface conf @ '':'' @ fmt_d (Port conf)"

subsection \<open>\<^verbatim>\<open>net/url\<close>\<close>

record Userinfo =
  username :: string
  password :: string
  passwordSet :: bool

record URL =
  Scheme :: string
  Opaque :: string
  User :: "Userinfo option"
  Host :: string
  Path :: string
  RawPath :: string
  OmitHost :: bool
  ForceQuery :: bool
  RawQuery :: string
  Fragment :: string
  RawFragment :: string

text \<open>
  The functions of \<^verbatim>\<open>net/url\<close> that \<^verbatim>\<open>main\<close> reaches and that depend on the package's
  parsing and escaping tables: \<^verbatim>\<open>url.Parse\<close> (an error text or the URL),
  \<^verbatim>\<open>escape(h, encodeHost)\<close>, \<^verbatim>\<open>(*URL).EscapedPath\<close>, \<^verbatim>\<open>(*URL).EscapedFragment\<close> and
  \<^verbatim>\<open>(*Userinfo).String\<close>.
\<close>

record net_url =
  url_Parse :: "string \<Rightarrow> string + URL"
  escape_host :: "string \<Rightarrow> string"
  EscapedPath :: "URL \<Rightarrow> string"
  EscapedFragment :: "URL \<Rightarrow> string"
  Userinfo_String :: "Userinfo \<Rightarrow> string"

text \<open>\<^verbatim>\<open>strings.Cut(s, sep)\<close> for a one-byte separator: the text before the first \<open>sep\<close>.\<close>

fun before_sep :: "string \<Rightarrow> char \<Rightarrow> string" where
  "before_sep [] sep = []"
| "before_sep (c # cs) sep = (if c = sep then [] else c # before_sep cs sep)"

text \<open>\<^verbatim>\<open>(*URL).String\<close>: the assembly of the parts, in the order the method writes them.\<close>

definition URL_String :: "net_url \<Rightarrow> URL \<Rightarrow> string" where
  "URL_String L u =
     (let buf0 = (if Scheme u \<noteq> '''' then Scheme u @ '':'' else '''');
          buf1 =
            (if Opaque u \<noteq> '''' then buf0 @ Opaque u
             else
               let b1 =
                     (if Scheme u \<noteq> '''' \<or> Host u \<noteq> '''' \<or> User u \<noteq> None then
                        (if OmitHost u \<and> Host u = '''' \<and> User u = None then buf0
                         else
                           let s1 = (if Host u \<noteq> '''' \<or> Path u \<noteq> '''' \<or> User u \<noteq> None
                                     then buf0 @ ''//'' else buf0);
                               s2 = (case User u of None \<Rightarrow> s1
                                     | Some ui \<Rightarrow> s1 @ Userinfo_String L ui @ ''@'')
                           in (if Host u \<noteq> '''' then s2 @ escape_host L (Host u) else s2))
                      else buf0);
                   path = EscapedPath L u;
                   b2 = (if path \<noteq> '''' \<and> hd path \<noteq> CHR ''/'' \<and> Host u \<noteq> ''''
                         then b1 @ ''/'' else b1);
                   b3 = (if b2 = '''' \<and> CHR '':'' \<in> set (before_sep path (CHR ''/''))
                         then b2 @ ''./'' else b2)
               in b3 @ path);
          buf2 = (if ForceQuery u \<or> RawQuery u \<noteq> '''' then buf1 @ ''?'' @ RawQuery u else buf1)
      in (if Fragment u \<noteq> '''' then buf2 @ ''#'' @ EscapedFragment L u else buf2))"

text \<open>Lines 83 to 88 of \<^verbatim>\<open>main\<close>: the two defaults written into the parsed callback.\<close>

definition callback_defaults :: "config \<Rightarrow> URL \<Rightarrow> URL" where
  "callback_defaults conf u0 =
     (let u1 = (if Scheme u0 = '''' then u0\<lparr>Scheme := ''http''\<rparr> else u0)
      in (if Host u1 = '''' then u1\<lparr>Host := host_port conf\<rparr> else u1))"

subsection \<open>\<^verbatim>\<open>oauth2.Config\<close> and \<^verbatim>\<open>AuthCodeURL\<close>\<close>

record oauth2_Config =
  cfg_ClientID :: string
  cfg_ClientSecret :: string
  Scopes :: "string list"
  RedirectURL :: string
  Endpoint_AuthURL :: string
  Endpoint_TokenURL :: string

text \<open>\<^verbatim>\<open>url.Values\<close> is a Go map from a key to its values; \<^verbatim>\<open>Get\<close> reads the first one.\<close>

type_synonym Values = "string \<rightharpoonup> string list"

definition Values_Set :: "Values \<Rightarrow> string \<Rightarrow> string \<Rightarrow> Values" where
  "Values_Set v k x = v(k \<mapsto> [x])"

definition Values_Get :: "Values \<Rightarrow> string \<Rightarrow> string" where
  "Values_Get v k = (case v k of None \<Rightarrow> '''' | Some [] \<Rightarrow> '''' | Some (x # _) \<Rightarrow> x)"

fun Join :: "string list \<Rightarrow> string \<Rightarrow> string" where
  "Join [] sep = ''''"
| "Join [x] sep = x"
| "Join (x # y # ys) sep = x @ sep @ Join (y # ys) sep"

text \<open>
  The authorization request that \<^verbatim>\<open>AuthCodeURL\<close> builds: the endpoint and the query
  parameters it sets, in its order; an \<^verbatim>\<open>AuthCodeOption\<close> sets one more parameter. The
  printed URL is the endpoint, a \<^verbatim>\<open>?\<close> (or \<^verbatim>\<open>&\<close>) and \<^verbatim>\<open>v.Encode()\<close>, which writes each
  value percent-escaped; the provider reads the parameter values back from it.
\<close>

record auth_request =
  endpoint :: string
  params :: Values

definition AuthCodeURL :: "oauth2_Config \<Rightarrow> string \<Rightarrow> (string \<times> string) list \<Rightarrow> auth_request" where
  "AuthCodeURL c state opts =
     (let v0 = [''response_type'' \<mapsto> [''code''], ''client_id'' \<mapsto> [cfg_ClientID c]];
          v1 = (if RedirectURL c \<noteq> '''' then Values_Set v0 ''redirect_uri'' (RedirectURL c) else v0);
          v2 = (if length (Scopes c) > 0 then Values_Set v1 ''scope'' (Join (Scopes c) '' '') else v1);
          v3 = (if state \<noteq> '''' then Values_Set v2 ''state'' state else v2)
      in \<lparr>endpoint = Endpoint_AuthURL c,
          params = foldl (\<lambda>v (k, x). Values_Set v k x) v3 opts\<rparr>)"

definition AccessTypeOffline :: "string \<times> string" where
  "AccessTypeOffline = (''access_type'', ''offline'')"

subsection \<open>\<^verbatim>\<open>main\<close> up to the printed URL\<close>

text \<open>The local variables of \<^verbatim>\<open>main\<close> that the handler closes over.\<close>

record flow =
  fl_conf :: config
  fl_callbackURL :: URL
  fl_config :: oauth2_Config
  fl_nonce :: string
  fl_state :: string
  fl_visitURL :: auth_request

definition main_start ::
    "toolchain \<Rightarrow> net_url \<Rightarrow> defaults_file \<Rightarrow> flag_arg list \<Rightarrow> rand_source \<Rightarrow> exit + flow" where
  "main_start tc L file args src =
     and_then (loadConfig file args) (\<lambda>cf.
     and_then (case url_Parse L (Callback cf) of
                 Inl err \<Rightarrow> Inl (Fatal_callback err)
               | Inr u \<Rightarrow> Inr (callback_defaults cf u)) (\<lambda>cb.
       let cfg = \<lparr>cfg_ClientID = ClientID cf,
                  cfg_ClientSecret = ClientSecret cf,
                  Scopes = [Scope cf],
                  RedirectURL = URL_String L cb,
                  Endpoint_AuthURL = AuthURL cf,
                  Endpoint_TokenURL = TokenURL cf\<rparr>
       in
     and_then (if OIDCNonce cf
               then and_then (randString tc src) (\<lambda>(n, s).
                    Inr (n, [AccessTypeOffline] @ [(''nonce'', n)], s))
               else Inr ('''', [AccessTypeOffline], src)) (\<lambda>(n, opts, src1).
     and_then (randString tc src1) (\<lambda>(st, src2).
       Inr \<lparr>fl_conf = cf, fl_callbackURL = cb, fl_config = cfg, fl_nonce = n,
            fl_state = st, fl_visitURL = AuthCodeURL cfg st opts\<rparr>))))"


section \<open>The callback\<close>

subsection \<open>\<^verbatim>\<open>checkNonce\<close>\<close>

text \<open>
  \<^verbatim>\<open>token.Extra("id_token")\<close> is an \<^verbatim>\<open>interface{}\<close>: nothing, a string, or a value of
  another type; the assertion \<^verbatim>\<open>.(string)\<close> succeeds on a string only.
\<close>

datatype extra = Absent | Str string | Other

record Token =
  AccessToken :: string
  TokenType :: string
  RefreshToken :: string
  id_token :: extra

text \<open>
  What the handler reaches outside the program: the provider's answer to the exchange of
  a code (\<^verbatim>\<open>config.Exchange\<close>: an error text or a token), \<^verbatim>\<open>json.MarshalIndent\<close> of the
  token, \<^verbatim>\<open>base64.RawURLEncoding.DecodeString\<close>, \<^verbatim>\<open>json.Unmarshal\<close> of the payload into
  \<^verbatim>\<open>struct { Nonce string }\<close> (an error text or the field \<^verbatim>\<open>Nonce\<close>) and the quoting of
  the verb \<^verbatim>\<open>%q\<close>.
\<close>

record env =
  Exchange :: "string \<Rightarrow> string + Token"
  MarshalIndent :: "Token \<Rightarrow> string + string"
  DecodeString :: "string \<Rightarrow> string + string"
  Unmarshal :: "string \<Rightarrow> string + string"
  Quote :: "string \<Rightarrow> string"

text \<open>
  \<^verbatim>\<open>strings.SplitN(s, sep, n)\<close> for a one-byte separator: no substring for \<open>n = 0\<close>,
  otherwise at most \<open>n\<close> substrings, the last one the unsplit rest.
\<close>

fun cut_at :: "string \<Rightarrow> char \<Rightarrow> (string \<times> string) option" where
  "cut_at [] sep = None"
| "cut_at (c # cs) sep =
     (if c = sep then Some ([], cs)
      else (case cut_at cs sep of None \<Rightarrow> None | Some (a, r) \<Rightarrow> Some (c # a, r)))"

fun SplitN :: "string \<Rightarrow> char \<Rightarrow> nat \<Rightarrow> string list" where
  "SplitN s sep 0 = []"
| "SplitN s sep (Suc 0) = [s]"
| "SplitN s sep (Suc (Suc n)) =
     (case cut_at s sep of None \<Rightarrow> [s] | Some (a, r) \<Rightarrow> a # SplitN r sep (Suc n))"

text \<open>What the handler leaves behind, in order.\<close>

datatype event =
    Log string                \<comment> \<open>\<^verbatim>\<open>log.Printf\<close>, the formatted text\<close>
  | TransportWrapped          \<comment> \<open>\<^verbatim>\<open>http.DefaultTransport = loggingTransport{...}\<close>\<close>
  | ExchangeCalled string     \<comment> \<open>\<^verbatim>\<open>config.Exchange(ctx, code)\<close>\<close>
  | MarshalCalled             \<comment> \<open>\<^verbatim>\<open>json.MarshalIndent(token, "", "  ")\<close>\<close>
  | Responded nat string      \<comment> \<open>status and body sent by \<^verbatim>\<open>http.Error\<close> or \<^verbatim>\<open>w.Write\<close>\<close>
  | Panic string              \<comment> \<open>a run-time panic leaves the handler\<close>
  | ServerShutdown            \<comment> \<open>\<^verbatim>\<open>server.Shutdown(ctx)\<close> in \<^verbatim>\<open>main\<close>\<close>

datatype 'a outcome = Returned 'a | Panicked string

definition nl :: string where
  "nl = [CHR 0x0A]"

text \<open>
  \<^verbatim>\<open>checkNonce\<close> returns \<^verbatim>\<open>nil\<close> (\<open>None\<close>) or an error (its text). The index expression
  \<^verbatim>\<open>splitToken[1]\<close> is evaluated on whatever \<^verbatim>\<open>SplitN\<close> returned; Go panics when the
  slice has fewer than two elements.
\<close>

definition checkNonce :: "env \<Rightarrow> string \<Rightarrow> Token \<Rightarrow> event list \<times> string option outcome" where
  "checkNonce E nonce token =
     (case id_token token of
        Str idToken \<Rightarrow>
          (let splitToken = SplitN idToken (CHR ''.'') 3 in
           if length splitToken \<le> 1
           then ([], Panicked ''index out of range [1]'')
           else
             (let logged = [Log (Quote E (splitToken ! 1))] in
              case DecodeString E (splitToken ! 1) of
                Inl err \<Rightarrow> (logged, Returned (Some (''id_token payload decode: '' @ err)))
              | Inr payload \<Rightarrow>
                  (case Unmarshal E payload of
                     Inl err \<Rightarrow> (logged, Returned (Some (''id_token payload decode: '' @ err)))
                   | Inr decodeToken_Nonce \<Rightarrow>
                       if decodeToken_Nonce \<noteq> nonce
                       then (logged, Returned (Some (Quote E decodeToken_Nonce @ '' != '' @ Quote E nonce)))
                       else (logged, Returned None))))
      | _ \<Rightarrow> ([], Returned (Some ''missing OIDC id_token'')))"

subsection \<open>The handler registered by \<^verbatim>\<open>main\<close>\<close>

record request =
  RequestURI :: string
  Query :: Values

text \<open>\<^verbatim>\<open>http.Error(w, msg, code)\<close> sends the status and the message followed by a newline.\<close>

definition http_Error :: "string \<Rightarrow> nat \<Rightarrow> event list" where
  "http_Error msg code = [Responded code (msg @ nl)]"

definition StatusUnauthorized :: nat where
  "StatusUnauthorized = 401"

definition StatusServiceUnavailable :: nat where
  "StatusServiceUnavailable = 503"

definition StatusOK :: nat where
  "StatusOK = 200"

text \<open>The verbose branch at the top of the handler.\<close>

definition verbose_events :: "config \<Rightarrow> request \<Rightarrow> event list" where
  "verbose_events cf r =
     (if Verbose cf then [Log (''Got callback: '' @ RequestURI r @ nl), TransportWrapped] else [])"

text \<open>The body of the handler, from the verbose branch to the last statement.\<close>

definition handler_body :: "env \<Rightarrow> config \<Rightarrow> string \<Rightarrow> string \<Rightarrow> request \<Rightarrow> event list" where
  "handler_body E cf st n r =
     verbose_events cf r @
     (let query = Query r; s = Values_Get query ''state'' in
      if s \<noteq> st then http_Error (''Invalid state: '' @ s) StatusUnauthorized
      else
        (let code = Values_Get query (CodeParam cf) in
         ExchangeCalled code #
         (case Exchange E code of
            Inl err \<Rightarrow> http_Error (''Exchange error: '' @ err) StatusServiceUnavailable
          | Inr token \<Rightarrow>
              (case (if n \<noteq> '''' then checkNonce E n token else ([], Returned None)) of
                 (evs, Panicked p) \<Rightarrow> evs @ [Panic p]
               | (evs, Returned (Some err)) \<Rightarrow>
                   evs @ http_Error (''OIDC nonce error: '' @ err) StatusUnauthorized
               | (evs, Returned None) \<Rightarrow>
                   evs @ MarshalCalled #
                   (case MarshalIndent E token of
                      Inl err \<Rightarrow> http_Error (''Token parse error: '' @ err) StatusServiceUnavailable
                    | Inr tokenJSON \<Rightarrow>
                        [Log (''result:'' @ nl @ tokenJSON @ nl), Responded StatusOK tokenJSON])))))"

text \<open>
  \<^verbatim>\<open>defer wg.Done()\<close> is the handler's first statement: the counter of the wait group is
  decremented when the body is left, by a \<^verbatim>\<open>return\<close> or by a panic.
\<close>

definition handler :: "env \<Rightarrow> config \<Rightarrow> string \<Rightarrow> string \<Rightarrow> request \<Rightarrow> int \<Rightarrow> event list \<times> int" where
  "handler E cf st n r wg = (handler_body E cf st n r, wg - 1)"

text \<open>
  The closure that \<^verbatim>\<open>main\<close> registers: the handler over the configuration, the state
  and the nonce of this run.
\<close>

definition callback :: "env \<Rightarrow> flow \<Rightarrow> request \<Rightarrow> int \<Rightarrow> event list \<times> int" where
  "callback E fl r wg = handler E (fl_conf fl) (fl_state fl) (fl_nonce fl) r wg"

text \<open>
  \<^verbatim>\<open>main\<close> around one request: \<^verbatim>\<open>wg.Add(1)\<close> on a fresh wait group, the handler on the
  server's goroutine, and \<^verbatim>\<open>wg.Wait()\<close>, which returns when the counter is zero; then
  \<^verbatim>\<open>server.Shutdown(ctx)\<close>. \<open>None\<close>: \<^verbatim>\<open>main\<close> is still waiting.
\<close>

definition main_serve :: "env \<Rightarrow> flow \<Rightarrow> request \<Rightarrow> event list option" where
  "main_serve E fl r =
     (let wg = 0 + 1;
          (evs, wg') = callback E fl r wg
      in if wg' = 0 then Some (evs @ [ServerShutdown]) else None)"

text \<open>Readings of a trace: the responses sent, and the codes handed to the exchange.\<close>

fun responses :: "event list \<Rightarrow> (nat \<times> string) list" where
  "responses [] = []"
| "responses (Responded code body # evs) = (code, body) # responses evs"
| "responses (_ # evs) = responses evs"

fun exchanges :: "event list \<Rightarrow> string list" where
  "exchanges [] = []"
| "exchanges (ExchangeCalled code # evs) = code # exchanges evs"
| "exchanges (_ # evs) = exchanges evs"

section \<open>Concrete inputs of the worked examples\<close>

text \<open>
  A defaults file that names both endpoints and the client credentials, and the command
  lines of the README's and the specification's examples.
\<close>

definition provider_file :: file_values where
  "provider_file =
     \<lparr>j_interface = None, j_port = None, j_callback = None,
      j_client_id = Some ''my-id'', j_client_secret = Some ''my-secret'',
      j_auth_url = Some ''https://provider.example/authorize'',
      j_token_url = Some ''https://provider.example/token'',
      j_code_param = None, j_scopes = None, j_nonce = None, j_verbose = None\<rparr>"

definition base_args :: "flag_arg list" where
  "base_args =
     [F_id ''my-id'', F_secret ''my-secret'',
      F_auth ''https://provider.example/authorize'',
      F_token ''https://provider.example/token'']"

text \<open>
  \<^verbatim>\<open>net/url\<close> on a callback that is an absolute path with nothing to escape, such as
  \<^verbatim>\<open>/oauth/callback\<close>: \<^verbatim>\<open>url.Parse\<close> returns a URL whose only non-zero field is \<open>Path\<close>,
  and the escaping functions return their argument as it is.
\<close>

definition path_only :: "string \<Rightarrow> URL" where
  "path_only p =
     \<lparr>Scheme = '''', Opaque = '''', User = None, Host = '''', Path = p, RawPath = '''',
      OmitHost = False, ForceQuery = False, RawQuery = '''', Fragment = '''',
      RawFragment = ''''\<rparr>"

definition plain_paths :: net_url where
  "plain_paths =
     \<lparr>url_Parse = (\<lambda>s. Inr (path_only s)), escape_host = (\<lambda>h. h), EscapedPath = Path,
      EscapedFragment = Fragment, Userinfo_String = username\<rparr>"

text \<open>Two reads of the random source that deliver 32 bytes each.\<close>

definition draw_a :: "byte list" where
  "draw_a = [0, 1, 2, 3, 4, 5, 6, 7, 8, 9, 10, 11, 12, 13, 14, 15, 16, 17, 18, 19, 20, 21,
             22, 23, 24, 25, 26, 27, 28, 29, 30, 31]"

definition draw_b :: "byte list" where
  "draw_b = replicate 32 255"

text \<open>
  A provider that answers every code with a token whose ID token has the three segments
  \<^verbatim>\<open>eyJhbGciOiJub25lIn0\<close>, \<^verbatim>\<open>eyJub25jZSI6Im90aGVyIn0\<close> and \<^verbatim>\<open>sig\<close>. The middle segment is
  the unpadded URL-safe base64 text of a JSON object whose only member is the nonce
  \<^verbatim>\<open>other\<close>.
\<close>

definition other_payload :: string where
  \<open>other_payload = ''{"nonce":"other"}''\<close>

definition other_token :: Token where
  "other_token =
     \<lparr>AccessToken = ''access'', TokenType = ''Bearer'', RefreshToken = ''refresh'',
      id_token = Str ''eyJhbGciOiJub25lIn0.eyJub25jZSI6Im90aGVyIn0.sig''\<rparr>"

definition other_provider :: env where
  "other_provider =
     \<lparr>Exchange = (\<lambda>code. Inr other_token),
      MarshalIndent = (\<lambda>t. Inr (AccessToken t)),
      DecodeString =
        (\<lambda>s. if s = ''eyJub25jZSI6Im90aGVyIn0'' then Inr other_payload
             else Inl ''illegal base64 data''),
      Unmarshal =
        (\<lambda>p. if p = other_payload then Inr ''other'' else Inl ''invalid character''),
      Quote = (\<lambda>s. [CHR 0x22] @ s @ [CHR 0x22])\<rparr>"

text \<open>A callback request that carries the given state and the code \<^verbatim>\<open>c0de\<close>.\<close>

definition request_with :: "string \<Rightarrow> request" where
  "request_with st =
     \<lparr>RequestURI = ''/oauth/callback'',
      Query = [''state'' \<mapsto> [st], ''code'' \<mapsto> [''c0de'']]\<rparr>"

section \<open>Properties of the configuration resolution\<close>

lemma flag_Parse_eq:
  "flag_Parse args c =
     (case first_rejected args of Some a \<Rightarrow> Inl (Flag_exit a) | None \<Rightarrow> Inr (stored args c))"
proof (induction args arbitrary: c)
  case Nil
  show ?case by simp
next
  case (Cons a as)
  show ?case by (cases a) (simp_all add: Cons.IH split: option.splits)
qed

lemma first_rejected_None: "first_rejected args = None \<longleftrightarrow> (\<forall>a\<in>set args. \<not> is_rejected a)"
proof (induction args)
  case Nil
  show ?case by simp
next
  case (Cons a as)
  then show ?case by (cases a) simp_all
qed

lemma loadConfig_eq:
  "loadConfig file args =
     (case file of
        OpenFailed e \<Rightarrow> Inl (Fatal_open e)
      | DecodeFailed e \<Rightarrow> Inl (Fatal_parse e)
      | _ \<Rightarrow> (case first_rejected args of
                Some a \<Rightarrow> Inl (Flag_exit a)
              | None \<Rightarrow> check_required (merged file args)))"
  by (cases "file")
     (simp_all add: loadConfig_def open_and_decode_def and_then_def flag_Parse_eq merged_def
        split: option.splits)

lemma check_required_eq:
  "check_required c = (if missing_required c then check_required c else Inr c)"
  by (simp add: check_required_def missing_required_def required_def and_then_def)

lemma check_required_isl: "isl (check_required c) \<longleftrightarrow> missing_required c"
  by (simp add: check_required_def missing_required_def required_def and_then_def)

lemma loadConfig_isl:
  "isl (loadConfig file args) \<longleftrightarrow>
     unreadable file \<or> malformed file \<or> first_rejected args \<noteq> None \<or>
     missing_required (merged file args)"
  by (cases "file"; cases "first_rejected args")
     (simp_all add: loadConfig_eq unreadable_def malformed_def check_required_isl)

lemma loadConfig_Inr:
  "\<not> isl (loadConfig file args) \<Longrightarrow> loadConfig file args = Inr (merged file args)"
  using check_required_eq[of "merged file args"] check_required_isl[of "merged file args"]
  by (cases "file"; cases "first_rejected args")
     (auto simp add: loadConfig_eq unreadable_def malformed_def)

lemma main_start_Inl:
  "loadConfig file args = Inl e \<Longrightarrow> main_start tc L file args src = Inl e"
  by (simp add: main_start_def and_then_def)

lemma stored_TokenURL:
  "first_rejected args = None \<Longrightarrow> TokenURL (stored args c) = or_else (cli_token args) (TokenURL c)"
proof (induction args arbitrary: c)
  case Nil
  show ?case by (simp add: or_else_def)
next
  case (Cons a as)
  then show ?case by (cases a) (simp_all add: or_else_def split: option.splits)
qed

lemma stored_AuthURL:
  "first_rejected args = None \<Longrightarrow> AuthURL (stored args c) = or_else (cli_auth args) (AuthURL c)"
proof (induction args arbitrary: c)
  case Nil
  show ?case by (simp add: or_else_def)
next
  case (Cons a as)
  then show ?case by (cases a) (simp_all add: or_else_def split: option.splits)
qed

lemma stored_Scope:
  "first_rejected args = None \<Longrightarrow> Scope (stored args c) = or_else (cli_scope args) (Scope c)"
proof (induction args arbitrary: c)
  case Nil
  show ?case by (simp add: or_else_def)
next
  case (Cons a as)
  then show ?case by (cases a) (simp_all add: or_else_def split: option.splits)
qed

lemma register_flags_eq: "register_flags c = c\<lparr>TokenURL := AuthURL c\<rparr>"
  by (simp add: register_flags_def Let_def)

text \<open>
  The authorization URL and the scope follow the rule of the specification: command
  line, then file, then built-in value.
\<close>

lemma merged_AuthURL:
  "first_rejected args = None \<Longrightarrow>
   AuthURL (merged file args) =
     spec_resolve (cli_auth args) (j_auth_url (file_of file)) (AuthURL builtin)"
  by (cases "file")
     (simp_all add: merged_def stored_AuthURL register_flags_eq spec_resolve_def file_of_def
        Decode_def or_else_def)

lemma merged_Scope:
  "first_rejected args = None \<Longrightarrow>
   Scope (merged file args) =
     spec_resolve (cli_scope args) (j_scopes (file_of file)) (Scope builtin)"
  by (cases "file")
     (simp_all add: merged_def stored_Scope register_flags_eq spec_resolve_def file_of_def
        Decode_def or_else_def)

text \<open>
  The token URL does not: without \<^verbatim>\<open>-token\<close> on the command line it is the authorization
  URL of the file (or of the literal), whatever \<^verbatim>\<open>token_url\<close> the file gives.
\<close>

lemma merged_TokenURL:
  "first_rejected args = None \<Longrightarrow>
   TokenURL (merged file args) =
     or_else (cli_token args) (or_else (j_auth_url (file_of file)) (AuthURL builtin))"
  by (cases "file")
     (simp_all add: merged_def stored_TokenURL register_flags_eq file_of_def
        Decode_def or_else_def)

text \<open>
  C1. With a defaults file that gives \<^verbatim>\<open>auth_url\<close> and \<^verbatim>\<open>token_url\<close> and a command line
  without \<^verbatim>\<open>-token\<close>, \<^verbatim>\<open>loadConfig\<close> returns a configuration whose token URL is the file's
  authorization URL; the rule "command line, else file, else built-in default" gives the
  file's token URL. The value the file supplied has been replaced by a value taken from
  another field.
\<close>

theorem file_token_url_replaced_by_auth_url:
  "loadConfig (Decoded provider_file) [] = Inr (merged (Decoded provider_file) []) \<and>
   TokenURL (merged (Decoded provider_file) []) = ''https://provider.example/authorize'' \<and>
   spec_resolve (cli_token []) (j_token_url provider_file) (TokenURL builtin) =
     ''https://provider.example/token''"
  by (simp add: loadConfig_eq merged_def provider_file_def register_flags_eq Decode_def
      or_else_def builtin_def check_required_def required_def and_then_def spec_resolve_def)

text \<open>
  On a command line that the \<^verbatim>\<open>flag\<close> package accepts, the configuration after
  \<^verbatim>\<open>flag.Parse\<close> has in every field the last value given on the command line, or else
  the value the field had before.
\<close>

lemma stored_eq:
  "first_rejected args = None \<Longrightarrow>
   stored args c =
     \<lparr>Interface = or_else (cli_interface args) (Interface c),
      Port = or_else (cli_port args) (Port c),
      Callback = or_else (cli_callback args) (Callback c),
      ClientID = or_else (cli_id args) (ClientID c),
      ClientSecret = or_else (cli_secret args) (ClientSecret c),
      AuthURL = or_else (cli_auth args) (AuthURL c),
      TokenURL = or_else (cli_token args) (TokenURL c),
      CodeParam = or_else (cli_code args) (CodeParam c),
      Scope = or_else (cli_scope args) (Scope c),
      OIDCNonce = or_else (cli_oidc_nonce args) (OIDCNonce c),
      Verbose = or_else (cli_verbose args) (Verbose c)\<rparr>"
proof (induction args arbitrary: c)
  case Nil
  show ?case by (simp add: or_else_def)
next
  case (Cons a as)
  then show ?case by (cases a) (simp_all add: or_else_def split: option.splits)
qed

text \<open>
  The merge of \<^verbatim>\<open>loadConfig\<close> is the merge of the specification in every field but the
  token URL, and in the token URL too on the runs where the default of \<^verbatim>\<open>-token\<close> cannot
  show.
\<close>

lemma merged_spec_but_token:
  "first_rejected args = None \<Longrightarrow>
   (merged file args)\<lparr>TokenURL := TokenURL (spec_merged file args)\<rparr> = spec_merged file args"
  by (cases "file")
     (simp_all add: merged_def stored_eq register_flags_eq spec_merged_def spec_resolve_def
        file_of_def Decode_def or_else_def builtin_def)

lemma merged_spec:
  assumes "first_rejected args = None" and "token_default_hidden file args"
  shows "merged file args = spec_merged file args"
proof -
  have "TokenURL (merged file args) = TokenURL (spec_merged file args)"
    using assms(2)
    by (auto simp add: merged_TokenURL [OF assms(1)] token_default_hidden_def spec_merged_def
        spec_resolve_def or_else_def builtin_def split: option.splits)
  with merged_spec_but_token [OF assms(1), of "file"] show ?thesis
    by (metis config.update_convs(7) config.surjective)
qed

text \<open>
  C8, as stated, at a command line that gives all four required values and then a flag
  that is not defined: no file is involved and no required field is empty, by the merge
  of \<^verbatim>\<open>loadConfig\<close> and by the merge of the specification, and yet \<^verbatim>\<open>loadConfig\<close> does not
  return, because \<^verbatim>\<open>flag.Parse\<close> ends the process.
\<close>

theorem undefined_flag_ends_process:
  "loadConfig NotExist (base_args @ [F_rejected ''-bogus'']) = Inl (Flag_exit ''-bogus'') \<and>
   \<not> unreadable NotExist \<and> \<not> malformed NotExist \<and>
   \<not> missing_required (merged NotExist (base_args @ [F_rejected ''-bogus''])) \<and>
   \<not> missing_required (spec_merged NotExist (base_args @ [F_rejected ''-bogus'']))"
  by (simp add: loadConfig_eq base_args_def unreadable_def malformed_def merged_def
      missing_required_def register_flags_eq builtin_def spec_merged_def spec_resolve_def
      or_else_def)

text \<open>
  C8, amended. On the runs where the token URL is given on the command line, or the file
  gives the same for \<^verbatim>\<open>token_url\<close> and \<^verbatim>\<open>auth_url\<close> (in particular neither, or no file),
  \<^verbatim>\<open>loadConfig\<close> ends the process exactly when the defaults file exists but cannot be
  opened, or \<^verbatim>\<open>Decode\<close> returns an error on its first JSON value, or the \<^verbatim>\<open>flag\<close> package
  does not accept the command line, or one of the four required fields (authorization
  URL, token URL, client id, client secret) is empty after the merge of the
  specification (command line, else file, else built-in value); otherwise it returns
  that merged configuration. Text that follows the first JSON value of the file does not
  end the process. When \<^verbatim>\<open>loadConfig\<close> ends the process, \<^verbatim>\<open>main\<close> has done nothing else:
  no URL was built and no listener started. Nothing is stated about the other runs, on
  which the token URL is the one that the registration of \<^verbatim>\<open>-token\<close> takes from the
  authorization URL (C1).
\<close>

theorem loadConfig_exit_iff:
  assumes "token_default_hidden file args"
  shows "(isl (loadConfig file args) \<longleftrightarrow>
            unreadable file \<or> malformed file \<or> first_rejected args \<noteq> None \<or>
            missing_required (spec_merged file args)) \<and>
         (\<not> isl (loadConfig file args) \<longrightarrow> loadConfig file args = Inr (spec_merged file args)) \<and>
         (\<forall>e. loadConfig file args = Inl e \<longrightarrow> main_start tc L file args src = Inl e)"
proof (cases "first_rejected args = None")
  case True
  from merged_spec [OF True assms] have m: "merged file args = spec_merged file args" .
  show ?thesis
    using loadConfig_isl [of "file" args] loadConfig_Inr [of "file" args]
      main_start_Inl [of "file" args _ tc L src]
    unfolding m by blast
next
  case False
  then show ?thesis
    using loadConfig_isl [of "file" args] main_start_Inl [of "file" args _ tc L src] by blast
qed

theorem loadConfig_exit_iff_witness:
  "token_default_hidden NotExist base_args \<and>
   loadConfig NotExist base_args = Inr (spec_merged NotExist base_args) \<and>
   token_default_hidden (Decoded_then provider_file ''trailing text'')
     [F_token ''https://provider.example/token''] \<and>
   loadConfig (Decoded_then provider_file ''trailing text'')
       [F_token ''https://provider.example/token''] =
     Inr (spec_merged (Decoded_then provider_file ''trailing text'')
            [F_token ''https://provider.example/token'']) \<and>
   isl (loadConfig (OpenFailed ''permission denied'') base_args) \<and>
   main_start Since_1_24 plain_paths (OpenFailed ''permission denied'') base_args [] =
     Inl (Fatal_open ''permission denied'') \<and>
   isl (loadConfig (DecodeFailed ''unexpected EOF'') base_args) \<and>
   token_default_hidden NotExist [F_id ''my-id''] \<and>
   missing_required (spec_merged NotExist [F_id ''my-id'']) \<and>
   isl (loadConfig NotExist [F_id ''my-id''])"
proof -
  have h1: "token_default_hidden NotExist base_args"
    by (simp add: token_default_hidden_def base_args_def)
  have n1: "\<not> (unreadable NotExist \<or> malformed NotExist \<or> first_rejected base_args \<noteq> None \<or>
      missing_required (spec_merged NotExist base_args))"
    by (simp add: unreadable_def malformed_def base_args_def missing_required_def
        spec_merged_def spec_resolve_def or_else_def)
  from loadConfig_exit_iff [OF h1, of Since_1_24 plain_paths "[]"] n1
  have 1: "loadConfig NotExist base_args = Inr (spec_merged NotExist base_args)"
    by blast
  let ?f = "Decoded_then provider_file ''trailing text''"
  let ?a = "[F_token ''https://provider.example/token'']"
  have h2: "token_default_hidden ?f ?a"
    by (simp add: token_default_hidden_def)
  have n2: "\<not> (unreadable ?f \<or> malformed ?f \<or> first_rejected ?a \<noteq> None \<or>
      missing_required (spec_merged ?f ?a))"
    by (simp add: unreadable_def malformed_def missing_required_def spec_merged_def
        spec_resolve_def or_else_def file_of_def provider_file_def)
  from loadConfig_exit_iff [OF h2, of Since_1_24 plain_paths "[]"] n2
  have 2: "loadConfig ?f ?a = Inr (spec_merged ?f ?a)"
    by blast
  have h3: "token_default_hidden (OpenFailed ''permission denied'') base_args"
    by (simp add: token_default_hidden_def base_args_def)
  have e3: "loadConfig (OpenFailed ''permission denied'') base_args =
      Inl (Fatal_open ''permission denied'')"
    by (simp add: loadConfig_eq)
  from loadConfig_exit_iff [OF h3, of Since_1_24 plain_paths "[]"] e3
  have 3: "isl (loadConfig (OpenFailed ''permission denied'') base_args)"
    and 4: "main_start Since_1_24 plain_paths (OpenFailed ''permission denied'') base_args [] =
      Inl (Fatal_open ''permission denied'')"
    by (simp_all add: unreadable_def)
  have h5: "token_default_hidden (DecodeFailed ''unexpected EOF'') base_args"
    by (simp add: token_default_hidden_def base_args_def)
  from loadConfig_exit_iff [OF h5, of Since_1_24 plain_paths "[]"]
  have 5: "isl (loadConfig (DecodeFailed ''unexpected EOF'') base_args)"
    by (simp add: malformed_def)
  have h6: "token_default_hidden NotExist [F_id ''my-id'']"
    by (simp add: token_default_hidden_def file_of_def)
  have m6: "missing_required (spec_merged NotExist [F_id ''my-id''])"
    by (simp add: missing_required_def spec_merged_def spec_resolve_def or_else_def
        file_of_def builtin_def)
  from loadConfig_exit_iff [OF h6, of Since_1_24 plain_paths "[]"] m6
  have 6: "isl (loadConfig NotExist [F_id ''my-id''])"
    by blast
  from h1 1 h2 2 3 4 5 h6 m6 6 show ?thesis by (intro conjI)
qed

section \<open>Properties of the state and nonce generation\<close>









lemma group_two: "push_bit 16 (ucast a) OR push_bit 8 (ucast b) = group24 a b 0"
  by (simp add: group24_def)

lemma group_one: "push_bit 16 (ucast a) = group24 a 0 0"
  by (simp add: group24_def)




lemma length_EncodeToString: "length (EncodeToString src) = 4 * ((length src + 2) div 3)"
  by (induction src rule: EncodeToString.induct) (simp_all add: Let_def, arith)


lemma randString_eq:
  "randString tc src =
     (case src of
        [] \<Rightarrow>
          (if tc = Since_1_24 then Inl Rand_fatal
           else Inr (EncodeToString (replicate 32 0), []))
      | d # src' \<Rightarrow>
          (if length d < 32 \<and> tc = Since_1_24 then Inl Rand_fatal
           else Inr (EncodeToString (take 32 d @ drop (length d) (replicate 32 0)), src')))"
  by (cases src) (auto simp add: randString_def rand_Read_def and_then_def Let_def)


lemma randString_Inl: "randString tc src = Inl e \<Longrightarrow> e = Rand_fatal"
  by (cases src) (auto simp add: randString_eq split: if_splits)

lemma randString_Inr:
  assumes "randString tc src = Inr (s, src')"
  shows "src' = drop 1 src" and "length s = 44"
    and "\<exists>buf. length buf = 32 \<and> s = EncodeToString buf"
proof -
  let ?buf = "case src of [] \<Rightarrow> replicate 32 0
              | d # _ \<Rightarrow> take 32 d @ drop (length d) (replicate 32 (0 :: byte))"
  have len: "length ?buf = 32"
    by (cases src) auto
  from assms have s: "s = EncodeToString ?buf" and "src' = drop 1 src"
    by (cases src; auto simp add: randString_eq split: if_splits)+
  then show "src' = drop 1 src" by simp
  from s len show "length s = 44" by (simp add: length_EncodeToString)
  from s len show "\<exists>buf. length buf = 32 \<and> s = EncodeToString buf" by blast
qed

lemma randString_full:
  "length d = 32 \<Longrightarrow> randString tc (d # src) = Inr (EncodeToString d, src)"
  by (simp add: randString_eq)

lemma main_start_Inr:
  assumes "main_start tc L file args src = Inr fl"
  obtains u where "loadConfig file args = Inr (fl_conf fl)"
    and "url_Parse L (Callback (fl_conf fl)) = Inr u"
    and "fl_callbackURL fl = callback_defaults (fl_conf fl) u"
    and "RedirectURL (fl_config fl) = URL_String L (fl_callbackURL fl)"
    and "Scopes (fl_config fl) = [Scope (fl_conf fl)]"
    and "if OIDCNonce (fl_conf fl)
         then \<exists>s1 s2. randString tc src = Inr (fl_nonce fl, s1) \<and>
                randString tc s1 = Inr (fl_state fl, s2)
         else fl_nonce fl = '''' \<and> (\<exists>s2. randString tc src = Inr (fl_state fl, s2))"
    and "fl_visitURL fl =
           AuthCodeURL (fl_config fl) (fl_state fl)
             (if OIDCNonce (fl_conf fl) then [AccessTypeOffline, (''nonce'', fl_nonce fl)]
              else [AccessTypeOffline])"
proof -
  from assms obtain cf where cf: "loadConfig file args = Inr cf"
    by (cases "loadConfig file args") (simp_all add: main_start_def and_then_def)
  from assms cf obtain u where u: "url_Parse L (Callback cf) = Inr u"
    by (cases "url_Parse L (Callback cf)") (simp_all add: main_start_def and_then_def)
  show thesis
  proof (cases "OIDCNonce cf")
    case True
    from assms cf u True obtain n s1 where n: "randString tc src = Inr (n, s1)"
      by (cases "randString tc src") (auto simp add: main_start_def and_then_def Let_def)
    from assms cf u True n obtain st s2 where st: "randString tc s1 = Inr (st, s2)"
      by (cases "randString tc s1") (auto simp add: main_start_def and_then_def Let_def)
    from assms cf u True n st show thesis
      by (intro that [of u]) (auto simp add: main_start_def and_then_def Let_def)
  next
    case False
    from assms cf u False obtain st s2 where st: "randString tc src = Inr (st, s2)"
      by (cases "randString tc src") (auto simp add: main_start_def and_then_def Let_def)
    from assms cf u False st show thesis
      by (intro that [of u]) (auto simp add: main_start_def and_then_def Let_def)
  qed
qed

lemma main_start_runs:
  assumes "loadConfig dfile args = Inr cf" and "url_Parse L (Callback cf) = Inr u"
    and "\<not> OIDCNonce cf" and "length d = 32"
  shows "\<exists>fl. main_start tc L dfile args (d # src) = Inr fl \<and> fl_conf fl = cf \<and>
           fl_callbackURL fl = callback_defaults cf u \<and> fl_nonce fl = '''' \<and>
           fl_state fl = EncodeToString d"
  using assms by (simp add: main_start_def and_then_def Let_def randString_full)

lemma main_start_runs_nonce:
  assumes "loadConfig dfile args = Inr cf" and "url_Parse L (Callback cf) = Inr u"
    and "OIDCNonce cf" and "length d1 = 32" and "length d2 = 32"
  shows "\<exists>fl. main_start tc L dfile args (d1 # d2 # src) = Inr fl \<and> fl_conf fl = cf \<and>
           fl_callbackURL fl = callback_defaults cf u \<and> fl_nonce fl = EncodeToString d1 \<and>
           fl_state fl = EncodeToString d2"
  using assms by (simp add: main_start_def and_then_def Let_def randString_full)

lemma flow_nonce_nonempty:
  assumes "main_start tc L dfile args src = Inr fl" and "OIDCNonce (fl_conf fl)"
  shows "length (fl_nonce fl) = 44"
  using assms by (elim main_start_Inr) (auto dest: randString_Inr(2))

lemma flow_state_length:
  assumes "main_start tc L dfile args src = Inr fl"
  shows "length (fl_state fl) = 44"
  using assms by (elim main_start_Inr) (auto dest: randString_Inr(2) split: if_splits)





section \<open>Properties of the authorization request\<close>

lemma host_port_nonempty: "host_port cf \<noteq> ''''"
  by (simp add: host_port_def)

lemma callback_defaults_Scheme:
  "Scheme (callback_defaults cf u) = (if Scheme u = '''' then ''http'' else Scheme u)"
  by (simp add: callback_defaults_def Let_def)

lemma callback_defaults_Host:
  "Host (callback_defaults cf u) = (if Host u = '''' then host_port cf else Host u)"
  by (simp add: callback_defaults_def Let_def)

lemma callback_defaults_rest:
  "(callback_defaults cf u)\<lparr>Scheme := Scheme u, Host := Host u\<rparr> = u"
  by (simp add: callback_defaults_def Let_def)

lemma callback_defaults_fields:
  "Opaque (callback_defaults cf u) = Opaque u" "User (callback_defaults cf u) = User u"
  "Path (callback_defaults cf u) = Path u" "RawPath (callback_defaults cf u) = RawPath u"
  "OmitHost (callback_defaults cf u) = OmitHost u"
  "ForceQuery (callback_defaults cf u) = ForceQuery u"
  "RawQuery (callback_defaults cf u) = RawQuery u"
  "Fragment (callback_defaults cf u) = Fragment u"
  "RawFragment (callback_defaults cf u) = RawFragment u"
  by (simp_all add: callback_defaults_def Let_def)

lemma decimal_8081: "decimal 8081 = ''8081''"
  by (simp add: decimal.simps [of 8081] decimal.simps [of 808] decimal.simps [of 80]
      decimal.simps [of 8])

lemma fmt_d_8081: "fmt_d 8081 = ''8081''"
  by (simp add: fmt_d_def decimal_8081)

text \<open>
  \<^verbatim>\<open>String\<close> on a URL that has a scheme and a host and is not opaque: the scheme,
  \<^verbatim>\<open>://\<close>, the user, the host, the path (after a \<^verbatim>\<open>/\<close> when it does not start with one),
  the query and the fragment. After the two defaults of \<^verbatim>\<open>main\<close> the callback URL always
  has a scheme and a host.
\<close>

lemma URL_String_hier:
  assumes "Scheme u \<noteq> ''''" and "Host u \<noteq> ''''" and "Opaque u = ''''"
  shows "URL_String L u =
     Scheme u @ ''://'' @
     (case User u of None \<Rightarrow> '''' | Some ui \<Rightarrow> Userinfo_String L ui @ ''@'') @
     escape_host L (Host u) @
     (if EscapedPath L u \<noteq> '''' \<and> hd (EscapedPath L u) \<noteq> CHR ''/'' then ''/'' else '''') @
     EscapedPath L u @
     (if ForceQuery u \<or> RawQuery u \<noteq> '''' then ''?'' @ RawQuery u else '''') @
     (if Fragment u \<noteq> '''' then ''#'' @ EscapedFragment L u else '''')"
  using assms by (cases "User u") (simp_all add: URL_String_def Let_def)

lemma callback_defaults_nonempty:
  "Scheme (callback_defaults cf u) \<noteq> ''''" "Host (callback_defaults cf u) \<noteq> ''''"
  using host_port_nonempty [of cf]
  by (simp_all add: callback_defaults_Scheme callback_defaults_Host)

text \<open>
  C5. The callback URL that \<^verbatim>\<open>main\<close> derives is the parsed callback value with the scheme
  \<^verbatim>\<open>http\<close> when it has none and the host \<^verbatim>\<open>interface:port\<close> when it has none; every other
  field of the parsed value is kept, and the redirect URL is \<^verbatim>\<open>String()\<close> of the result.
  For the callback \<^verbatim>\<open>/oauth/callback\<close>, the interface \<^verbatim>\<open>127.0.0.1\<close> and the port 8081
  (\<^verbatim>\<open>net/url\<close> parses the value to a URL with only a path and escapes nothing in it) the
  redirect URL is \<^verbatim>\<open>http://127.0.0.1:8081/oauth/callback\<close>.
\<close>

theorem redirect_url_defaults:
  assumes "main_start tc L dfile args src = Inr fl"
    and "url_Parse L (Callback (fl_conf fl)) = Inr u"
  shows "Scheme (fl_callbackURL fl) = (if Scheme u = '''' then ''http'' else Scheme u) \<and>
         Host (fl_callbackURL fl) =
           (if Host u = '''' then Interface (fl_conf fl) @ '':'' @ fmt_d (Port (fl_conf fl))
            else Host u) \<and>
         (fl_callbackURL fl)\<lparr>Scheme := Scheme u, Host := Host u\<rparr> = u \<and>
         RedirectURL (fl_config fl) = URL_String L (fl_callbackURL fl) \<and>
         (Callback (fl_conf fl) = ''/oauth/callback'' \<and> Interface (fl_conf fl) = ''127.0.0.1'' \<and>
          Port (fl_conf fl) = 8081 \<and> u = path_only ''/oauth/callback'' \<and>
          escape_host L ''127.0.0.1:8081'' = ''127.0.0.1:8081'' \<and>
          EscapedPath L (fl_callbackURL fl) = ''/oauth/callback''
          \<longrightarrow> RedirectURL (fl_config fl) = ''http://127.0.0.1:8081/oauth/callback'')"
proof -
  from assms have cb: "fl_callbackURL fl = callback_defaults (fl_conf fl) u"
    and red: "RedirectURL (fl_config fl) = URL_String L (fl_callbackURL fl)"
    by (auto elim!: main_start_Inr)
  have ex: "URL_String L (fl_callbackURL fl) = ''http://127.0.0.1:8081/oauth/callback''"
    if "Interface (fl_conf fl) = ''127.0.0.1''" and "Port (fl_conf fl) = 8081"
      and "u = path_only ''/oauth/callback''"
      and "escape_host L ''127.0.0.1:8081'' = ''127.0.0.1:8081''"
      and "EscapedPath L (fl_callbackURL fl) = ''/oauth/callback''"
  proof -
    have u: "Opaque u = ''''" "User u = None" "ForceQuery u = False" "RawQuery u = ''''"
      "Fragment u = ''''" "Scheme u = ''''" "Host u = ''''"
      by (simp_all add: that(3) path_only_def)
    have hp: "host_port (fl_conf fl) = ''127.0.0.1:8081''"
      by (simp add: host_port_def that(1,2) fmt_d_8081)
    have f: "Scheme (fl_callbackURL fl) = ''http''" "Host (fl_callbackURL fl) = ''127.0.0.1:8081''"
      "Opaque (fl_callbackURL fl) = ''''" "User (fl_callbackURL fl) = None"
      "ForceQuery (fl_callbackURL fl) = False" "RawQuery (fl_callbackURL fl) = ''''"
      "Fragment (fl_callbackURL fl) = ''''"
      by (simp_all add: cb callback_defaults_Scheme callback_defaults_Host
            callback_defaults_fields u hp)
    have "URL_String L (fl_callbackURL fl) =
        ''http'' @ ''://'' @ '''' @ ''127.0.0.1:8081'' @ '''' @ ''/oauth/callback'' @ '''' @ ''''"
      by (subst URL_String_hier) (simp_all add: f that(4,5))
    then show ?thesis by simp
  qed
  have 1: "Scheme (fl_callbackURL fl) = (if Scheme u = '''' then ''http'' else Scheme u)"
    by (simp add: cb callback_defaults_Scheme)
  have 2: "Host (fl_callbackURL fl) =
      (if Host u = '''' then Interface (fl_conf fl) @ '':'' @ fmt_d (Port (fl_conf fl))
       else Host u)"
    by (simp add: cb callback_defaults_Host host_port_def)
  have 3: "(fl_callbackURL fl)\<lparr>Scheme := Scheme u, Host := Host u\<rparr> = u"
    by (simp add: cb callback_defaults_rest)
  have 5: "Callback (fl_conf fl) = ''/oauth/callback'' \<and> Interface (fl_conf fl) = ''127.0.0.1'' \<and>
      Port (fl_conf fl) = 8081 \<and> u = path_only ''/oauth/callback'' \<and>
      escape_host L ''127.0.0.1:8081'' = ''127.0.0.1:8081'' \<and>
      EscapedPath L (fl_callbackURL fl) = ''/oauth/callback''
      \<longrightarrow> RedirectURL (fl_config fl) = ''http://127.0.0.1:8081/oauth/callback''"
    by (intro impI, elim conjE) (simp only: red ex)
  from 1 2 3 red 5 show ?thesis by (intro conjI)
qed

theorem redirect_url_defaults_witness:
  "\<exists>fl. main_start Since_1_24 plain_paths NotExist base_args [draw_a] = Inr fl \<and>
      url_Parse plain_paths (Callback (fl_conf fl)) = Inr (path_only ''/oauth/callback'') \<and>
      Scheme (fl_callbackURL fl) = ''http'' \<and> Host (fl_callbackURL fl) = ''127.0.0.1:8081'' \<and>
      Path (fl_callbackURL fl) = ''/oauth/callback'' \<and>
      RedirectURL (fl_config fl) = ''http://127.0.0.1:8081/oauth/callback''"
proof -
  have cfg: "loadConfig NotExist base_args = Inr (merged NotExist base_args)"
    by (simp add: loadConfig_eq base_args_def merged_def register_flags_eq builtin_def
        check_required_def required_def and_then_def)
  have m: "Callback (merged NotExist base_args) = ''/oauth/callback''"
    "Interface (merged NotExist base_args) = ''127.0.0.1''"
    "Port (merged NotExist base_args) = 8081"
    "\<not> OIDCNonce (merged NotExist base_args)"
    by (simp_all add: base_args_def merged_def register_flags_eq builtin_def)
  have len: "length draw_a = 32"
    by (simp add: draw_a_def)
  have pp: "url_Parse plain_paths (Callback (merged NotExist base_args)) =
      Inr (path_only ''/oauth/callback'')"
    by (simp add: m plain_paths_def)
  from main_start_runs [OF cfg pp m(4) len, of Since_1_24 "[]"]
  obtain fl where run: "main_start Since_1_24 plain_paths NotExist base_args [draw_a] = Inr fl"
    and cf: "fl_conf fl = merged NotExist base_args"
    and cb: "fl_callbackURL fl =
      callback_defaults (merged NotExist base_args) (path_only ''/oauth/callback'')"
    by blast
  have p: "url_Parse plain_paths (Callback (fl_conf fl)) = Inr (path_only ''/oauth/callback'')"
    by (simp add: cf m plain_paths_def)
  have e: "escape_host plain_paths ''127.0.0.1:8081'' = ''127.0.0.1:8081''"
    "EscapedPath plain_paths (fl_callbackURL fl) = ''/oauth/callback''"
    "Path (fl_callbackURL fl) = ''/oauth/callback''"
    by (simp_all add: plain_paths_def cb callback_defaults_fields path_only_def)
  have prem: "Callback (fl_conf fl) = ''/oauth/callback'' \<and>
      Interface (fl_conf fl) = ''127.0.0.1'' \<and> Port (fl_conf fl) = 8081 \<and>
      path_only ''/oauth/callback'' = path_only ''/oauth/callback'' \<and>
      escape_host plain_paths ''127.0.0.1:8081'' = ''127.0.0.1:8081'' \<and>
      EscapedPath plain_paths (fl_callbackURL fl) = ''/oauth/callback''"
    using m e by (simp add: cf)
  note inst = redirect_url_defaults [OF run p]
  from inst prem have "RedirectURL (fl_config fl) = ''http://127.0.0.1:8081/oauth/callback''"
    by blast
  moreover from inst have "Scheme (fl_callbackURL fl) = ''http''"
    by (simp add: path_only_def)
  moreover from inst have "Host (fl_callbackURL fl) = ''127.0.0.1:8081''"
    by (simp add: path_only_def cf m fmt_d_8081)
  ultimately have "Scheme (fl_callbackURL fl) = ''http''"
    "Host (fl_callbackURL fl) = ''127.0.0.1:8081''"
    "RedirectURL (fl_config fl) = ''http://127.0.0.1:8081/oauth/callback''"
    by blast+
  with run p e(3) show ?thesis by blast
qed

text \<open>
  The scope parameter of the authorization request is the one string that
  \<^verbatim>\<open>-scope\<close> (or the file) left in the configuration, as it is.
\<close>

lemma AuthCodeURL_scope:
  assumes "Scopes c = [sc]" and "\<forall>(k, x) \<in> set opts. k \<noteq> ''scope''"
  shows "params (AuthCodeURL c st opts) ''scope'' = Some [sc]"
proof -
  have keep: "foldl (\<lambda>v (k, x). Values_Set v k x) v opts ''scope'' = v ''scope''"
    if "\<forall>(k, x) \<in> set opts. k \<noteq> ''scope''" for v :: Values and opts
    using that by (induction opts arbitrary: v) (auto simp add: Values_Set_def)
  show ?thesis
    using assms(1)
    by (simp add: AuthCodeURL_def Let_def keep [OF assms(2)]) (simp add: Values_Set_def)
qed

lemma visitURL_scope:
  assumes "main_start tc L dfile args src = Inr fl"
  shows "params (fl_visitURL fl) ''scope'' = Some [Scope (fl_conf fl)]"
proof -
  from assms have sc: "Scopes (fl_config fl) = [Scope (fl_conf fl)]"
    and v: "fl_visitURL fl =
           AuthCodeURL (fl_config fl) (fl_state fl)
             (if OIDCNonce (fl_conf fl) then [AccessTypeOffline, (''nonce'', fl_nonce fl)]
              else [AccessTypeOffline])"
    by (auto elim!: main_start_Inr)
  show ?thesis
    unfolding v by (rule AuthCodeURL_scope [OF sc]) (simp add: AccessTypeOffline_def)
qed

lemma loadConfig_base_args:
  assumes "first_rejected extra_args = None"
    and "\<forall>a\<in>set extra_args. \<forall>v. a \<noteq> F_id v \<and> a \<noteq> F_secret v \<and> a \<noteq> F_auth v \<and> a \<noteq> F_token v"
  shows "loadConfig NotExist (base_args @ extra_args) = Inr (merged NotExist (base_args @ extra_args))"
proof -
  have keep: "AuthURL (stored extra_args c) = AuthURL c \<and> TokenURL (stored extra_args c) = TokenURL c \<and>
      ClientID (stored extra_args c) = ClientID c \<and> ClientSecret (stored extra_args c) = ClientSecret c"
    for c using assms
  proof (induction extra_args arbitrary: c)
    case Nil
    show ?case by simp
  next
    case (Cons a as)
    then show ?case by (cases a) simp_all
  qed
  have "stored (base_args @ extra_args) c = stored extra_args (stored base_args c)" for c
    by (simp add: base_args_def)
  then have "\<not> missing_required (merged NotExist (base_args @ extra_args))"
    by (simp add: merged_def missing_required_def keep) (simp add: base_args_def)
  moreover have "first_rejected (base_args @ extra_args) = None"
    using assms(1) by (simp add: base_args_def)
  ultimately show ?thesis
    using check_required_eq [of "merged NotExist (base_args @ extra_args)"]
    by (simp add: loadConfig_eq)
qed

lemma main_start_Inl_rand:
  assumes "main_start tc L dfile args src = Inl e" and "loadConfig dfile args = Inr cf"
    and "url_Parse L (Callback cf) = Inr u"
  shows "e = Rand_fatal"
proof (cases "OIDCNonce cf")
  case True
  show ?thesis
  proof (cases "randString tc src")
    case (Inl e')
    with assms True randString_Inl [OF Inl] show ?thesis
      by (simp add: main_start_def and_then_def Let_def)
  next
    case (Inr p)
    obtain n s1 where p: "p = (n, s1)" by (cases p)
    show ?thesis
    proof (cases "randString tc s1")
      case (Inl e')
      with assms True Inr p randString_Inl [OF Inl] show ?thesis
        by (simp add: main_start_def and_then_def Let_def)
    next
      case Inr2: (Inr q)
      with assms True Inr p show ?thesis
        by (cases q) (simp add: main_start_def and_then_def Let_def)
    qed
  qed
next
  case False
  show ?thesis
  proof (cases "randString tc src")
    case (Inl e')
    with assms False randString_Inl [OF Inl] show ?thesis
      by (simp add: main_start_def and_then_def Let_def)
  next
    case (Inr q)
    with assms False show ?thesis
      by (cases q) (simp add: main_start_def and_then_def Let_def)
  qed
qed

text \<open>
  C2. One comma-separated \<^verbatim>\<open>-scope read,write\<close> reaches the authorization request as the
  parameter value \<^verbatim>\<open>read,write\<close>. The repeated form \<^verbatim>\<open>-scope read -scope write\<close> of the
  README does not: the second occurrence overwrites the first in \<^verbatim>\<open>conf.Scope\<close>, and the
  request carries \<^verbatim>\<open>write\<close> alone. This holds on every run that gets as far as the
  request (whatever the random source delivers, the only other outcome is the fatal error
  inside \<^verbatim>\<open>rand.Read\<close>), and the run on a read of 32 bytes gets there.
\<close>

theorem repeated_scope_keeps_last:
  "(\<exists>fl. main_start tc plain_paths NotExist (base_args @ [F_scope ''read,write''])
            (draw_a # src) = Inr fl \<and>
      Scopes (fl_config fl) = [''read,write''] \<and>
      params (fl_visitURL fl) ''scope'' = Some [''read,write'']) \<and>
   (\<exists>fl. main_start tc plain_paths NotExist (base_args @ [F_scope ''read'', F_scope ''write''])
            (draw_a # src) = Inr fl \<and>
      Scopes (fl_config fl) = [''write''] \<and>
      params (fl_visitURL fl) ''scope'' = Some [''write'']) \<and>
   (main_start tc plain_paths NotExist (base_args @ [F_scope ''read,write'']) src' =
      Inl Rand_fatal \<or>
    (\<exists>fl. main_start tc plain_paths NotExist (base_args @ [F_scope ''read,write'']) src' =
            Inr fl \<and>
       Scopes (fl_config fl) = [''read,write''] \<and>
       params (fl_visitURL fl) ''scope'' = Some [''read,write''])) \<and>
   (main_start tc plain_paths NotExist (base_args @ [F_scope ''read'', F_scope ''write'']) src' =
      Inl Rand_fatal \<or>
    (\<exists>fl. main_start tc plain_paths NotExist (base_args @ [F_scope ''read'', F_scope ''write''])
            src' = Inr fl \<and>
       Scopes (fl_config fl) = [''write''] \<and>
       params (fl_visitURL fl) ''scope'' = Some [''write'']))"
proof -
  have len: "length draw_a = 32"
    by (simp add: draw_a_def)
  have scope: "Scopes (fl_config fl) = [Scope (merged NotExist (base_args @ extra_args))] \<and>
      params (fl_visitURL fl) ''scope'' = Some [Scope (merged NotExist (base_args @ extra_args))]"
    if cfg: "loadConfig NotExist (base_args @ extra_args) =
        Inr (merged NotExist (base_args @ extra_args))"
      and fl: "main_start tc plain_paths NotExist (base_args @ extra_args) s = Inr fl"
    for extra_args s fl
  proof -
    from fl cfg have "fl_conf fl = merged NotExist (base_args @ extra_args)"
      by (elim main_start_Inr) simp
    moreover from fl have "Scopes (fl_config fl) = [Scope (fl_conf fl)]"
      by (rule main_start_Inr)
    ultimately show ?thesis using visitURL_scope [OF fl] by simp
  qed
  have run: "\<exists>fl. main_start tc plain_paths NotExist (base_args @ extra_args) (draw_a # src) =
        Inr fl \<and>
      Scopes (fl_config fl) = [Scope (merged NotExist (base_args @ extra_args))] \<and>
      params (fl_visitURL fl) ''scope'' = Some [Scope (merged NotExist (base_args @ extra_args))]"
    if cfg: "loadConfig NotExist (base_args @ extra_args) =
        Inr (merged NotExist (base_args @ extra_args))"
      and off: "\<not> OIDCNonce (merged NotExist (base_args @ extra_args))"
    for extra_args
  proof -
    from main_start_runs [OF cfg _ off len, of plain_paths _ tc src]
    obtain fl where
      fl: "main_start tc plain_paths NotExist (base_args @ extra_args) (draw_a # src) = Inr fl"
      by (auto simp add: plain_paths_def)
    with scope [OF cfg fl] show ?thesis by blast
  qed
  have any: "main_start tc plain_paths NotExist (base_args @ extra_args) src' = Inl Rand_fatal \<or>
      (\<exists>fl. main_start tc plain_paths NotExist (base_args @ extra_args) src' = Inr fl \<and>
        Scopes (fl_config fl) = [Scope (merged NotExist (base_args @ extra_args))] \<and>
        params (fl_visitURL fl) ''scope'' =
          Some [Scope (merged NotExist (base_args @ extra_args))])"
    if cfg: "loadConfig NotExist (base_args @ extra_args) =
        Inr (merged NotExist (base_args @ extra_args))"
    for extra_args
  proof (cases "main_start tc plain_paths NotExist (base_args @ extra_args) src'")
    case (Inl e)
    from main_start_Inl_rand [OF Inl cfg, of "path_only (Callback (merged NotExist (base_args @ extra_args)))"]
    have "e = Rand_fatal"
      by (simp add: plain_paths_def)
    with Inl show ?thesis by simp
  next
    case (Inr fl)
    with scope [OF cfg Inr] show ?thesis by simp
  qed
  have c1: "loadConfig NotExist (base_args @ [F_scope ''read,write'']) =
      Inr (merged NotExist (base_args @ [F_scope ''read,write'']))"
    and c2: "loadConfig NotExist (base_args @ [F_scope ''read'', F_scope ''write'']) =
      Inr (merged NotExist (base_args @ [F_scope ''read'', F_scope ''write'']))"
    by (rule loadConfig_base_args; simp)+
  have o1: "\<not> OIDCNonce (merged NotExist (base_args @ [F_scope ''read,write'']))"
    and o2: "\<not> OIDCNonce (merged NotExist (base_args @ [F_scope ''read'', F_scope ''write'']))"
    by (simp_all add: merged_def base_args_def register_flags_eq builtin_def)
  have s1: "Scope (merged NotExist (base_args @ [F_scope ''read,write''])) = ''read,write''"
    and s2: "Scope (merged NotExist (base_args @ [F_scope ''read'', F_scope ''write''])) = ''write''"
    by (simp_all add: merged_def base_args_def)
  from run [OF c1 o1] run [OF c2 o2] any [OF c1] any [OF c2] show ?thesis
    unfolding s1 s2 by (intro conjI)
qed

section \<open>Properties of the callback\<close>

lemma handler_body_mismatch:
  assumes "Values_Get (Query r) ''state'' \<noteq> st"
  shows "handler_body E cf st n r =
     verbose_events cf r @
     [Responded 401 (''Invalid state: '' @ Values_Get (Query r) ''state'' @ nl)]"
  using assms
  by (simp add: handler_body_def verbose_events_def Let_def http_Error_def
      StatusUnauthorized_def)

lemma responses_append: "responses (xs @ ys) = responses xs @ responses ys"
  by (induction xs rule: responses.induct) simp_all

lemma exchanges_append: "exchanges (xs @ ys) = exchanges xs @ exchanges ys"
  by (induction xs rule: exchanges.induct) simp_all

lemma verbose_events_quiet:
  "responses (verbose_events cf r) = []" "exchanges (verbose_events cf r) = []"
  "MarshalCalled \<notin> set (verbose_events cf r)"
  by (simp_all add: verbose_events_def)

text \<open>
  C3. A callback whose \<^verbatim>\<open>state\<close> parameter differs from the state of the run gets the
  status 401, and the handler returns without calling \<^verbatim>\<open>config.Exchange\<close>.
\<close>

theorem state_mismatch_rejected:
  assumes "Values_Get (Query r) ''state'' \<noteq> fl_state fl"
  shows "responses (fst (callback E fl r wg)) =
           [(401, ''Invalid state: '' @ Values_Get (Query r) ''state'' @ nl)] \<and>
         exchanges (fst (callback E fl r wg)) = [] \<and>
         (\<exists>evs. main_serve E fl r = Some (evs @ [ServerShutdown]) \<and> exchanges evs = [])"
  using assms
  by (simp add: callback_def handler_def handler_body_mismatch responses_append
      exchanges_append verbose_events_quiet main_serve_def)

theorem state_mismatch_rejected_witness:
  "\<exists>fl. main_start Since_1_24 plain_paths NotExist base_args [draw_a] = Inr fl \<and>
      Values_Get (Query (request_with ''forged'')) ''state'' \<noteq> fl_state fl \<and>
      responses (fst (callback other_provider fl (request_with ''forged'') 1)) =
        [(401, ''Invalid state: forged'' @ nl)] \<and>
      exchanges (fst (callback other_provider fl (request_with ''forged'') 1)) = []"
proof -
  have cfg: "loadConfig NotExist base_args = Inr (merged NotExist base_args)"
    using loadConfig_base_args [of "[]"] by simp
  have off: "\<not> OIDCNonce (merged NotExist base_args)"
    by (simp add: base_args_def merged_def register_flags_eq builtin_def)
  have la: "length draw_a = 32"
    by (simp add: draw_a_def)
  from main_start_runs [OF cfg _ off la, of plain_paths _ Since_1_24 "[]"]
  obtain fl where fl: "main_start Since_1_24 plain_paths NotExist base_args [draw_a] = Inr fl"
    by (auto simp add: plain_paths_def)
  have len: "length (fl_state fl) = 44"
    using fl by (rule flow_state_length)
  have "fl_state fl \<noteq> ''forged''"
  proof
    assume "fl_state fl = ''forged''"
    then have "length (fl_state fl) = 6" by simp
    with len show False by simp
  qed
  then have ne: "Values_Get (Query (request_with ''forged'')) ''state'' \<noteq> fl_state fl"
    by (auto simp add: request_with_def Values_Get_def)
  from state_mismatch_rejected [OF ne, of other_provider 1] fl ne show ?thesis
    by (auto simp add: request_with_def Values_Get_def)
qed

lemma cut_at_no_sep: "sep \<notin> set s \<Longrightarrow> cut_at s sep = None"
  by (induction s) auto

lemma SplitN_no_sep: "sep \<notin> set s \<Longrightarrow> SplitN s sep (Suc n) = [s]"
  by (cases n) (simp_all add: cut_at_no_sep)

lemma checkNonce_no_dot:
  assumes "id_token tok = Str idToken" and "CHR ''.'' \<notin> set idToken"
  shows "checkNonce E n tok = ([], Panicked ''index out of range [1]'')"
  using assms SplitN_no_sep [of "CHR ''.''" idToken 2]
  by (simp add: checkNonce_def numeral_3_eq_3)

text \<open>The failures that \<^verbatim>\<open>checkNonce\<close> does return: no ID token, a payload that does not decode.\<close>

lemma checkNonce_missing:
  "id_token tok = Absent \<or> id_token tok = Other \<Longrightarrow>
   checkNonce E n tok = ([], Returned (Some ''missing OIDC id_token''))"
  by (auto simp add: checkNonce_def)

lemma checkNonce_decode_error:
  assumes "id_token tok = Str idToken" and "SplitN idToken (CHR ''.'') 3 = hdr # seg # rest"
    and "DecodeString E seg = Inl err"
  shows "checkNonce E n tok =
    ([Log (Quote E seg)], Returned (Some (''id_token payload decode: '' @ err)))"
  using assms by (simp add: checkNonce_def)

lemma checkNonce_mismatch:
  assumes "id_token tok = Str idToken" and "SplitN idToken (CHR ''.'') 3 = hdr # seg # rest"
    and "DecodeString E seg = Inr payload" and "Unmarshal E payload = Inr n'" and "n' \<noteq> n"
  shows "checkNonce E n tok =
    ([Log (Quote E seg)], Returned (Some (Quote E n' @ '' != '' @ Quote E n)))"
  using assms by (simp add: checkNonce_def)

text \<open>
  C4. On an ID token without a dot, such as \<^verbatim>\<open>abc\<close> or the empty string, \<^verbatim>\<open>SplitN\<close>
  returns one segment and the index expression \<^verbatim>\<open>splitToken[1]\<close> panics: \<^verbatim>\<open>checkNonce\<close>
  does not return a payload-decode error, it does not return at all, and the handler
  sends no response.
\<close>

theorem checkNonce_panics_without_dot:
  "SplitN ''abc'' (CHR ''.'') 3 = [''abc''] \<and>
   checkNonce E n \<lparr>AccessToken = a, TokenType = t, RefreshToken = rt, id_token = Str ''abc''\<rparr> =
     ([], Panicked ''index out of range [1]'') \<and>
   checkNonce E n \<lparr>AccessToken = a, TokenType = t, RefreshToken = rt, id_token = Str ''''\<rparr> =
     ([], Panicked ''index out of range [1]'') \<and>
   handler_body
     (E\<lparr>Exchange := \<lambda>code. Inr \<lparr>AccessToken = a, TokenType = t, RefreshToken = rt,
                                  id_token = Str ''abc''\<rparr>\<rparr>)
     cf st (CHR ''x'' # n) \<lparr>RequestURI = uri, Query = [''state'' \<mapsto> [st]]\<rparr> =
     verbose_events cf \<lparr>RequestURI = uri, Query = [''state'' \<mapsto> [st]]\<rparr> @
     [ExchangeCalled (Values_Get [''state'' \<mapsto> [st]] (CodeParam cf)),
      Panic ''index out of range [1]'']"
proof -
  have 1: "SplitN ''abc'' (CHR ''.'') 3 = [''abc'']"
    by (simp add: numeral_3_eq_3)
  have 2: "checkNonce E' n' \<lparr>AccessToken = a, TokenType = t, RefreshToken = rt,
      id_token = Str ''abc''\<rparr> = ([], Panicked ''index out of range [1]'')" for E' n'
    by (rule checkNonce_no_dot [of _ "''abc''"]) simp_all
  have 3: "checkNonce E n \<lparr>AccessToken = a, TokenType = t, RefreshToken = rt,
      id_token = Str ''''\<rparr> = ([], Panicked ''index out of range [1]'')"
    by (rule checkNonce_no_dot [of _ "''''"]) simp_all
  have 4: "handler_body
     (E\<lparr>Exchange := \<lambda>code. Inr \<lparr>AccessToken = a, TokenType = t, RefreshToken = rt,
                                  id_token = Str ''abc''\<rparr>\<rparr>)
     cf st (CHR ''x'' # n) \<lparr>RequestURI = uri, Query = [''state'' \<mapsto> [st]]\<rparr> =
     verbose_events cf \<lparr>RequestURI = uri, Query = [''state'' \<mapsto> [st]]\<rparr> @
     [ExchangeCalled (Values_Get [''state'' \<mapsto> [st]] (CodeParam cf)),
      Panic ''index out of range [1]'']"
    by (simp add: handler_body_def verbose_events_def Let_def 2) (simp add: Values_Get_def)
  from 1 2 3 4 show ?thesis by (intro conjI)
qed

text \<open>
  C6. In a run with the nonce enabled, when the state matches, the exchange succeeds and
  the payload of the ID token decodes to a nonce that differs from the nonce of the run,
  the handler answers 401 and stops: \<^verbatim>\<open>json.MarshalIndent\<close> is not called and no token is
  written.
\<close>

theorem nonce_mismatch_rejected:
  assumes "main_start tc L dfile args src = Inr fl" and "OIDCNonce (fl_conf fl)"
    and "Values_Get (Query r) ''state'' = fl_state fl"
    and "Exchange E (Values_Get (Query r) (CodeParam (fl_conf fl))) = Inr tok"
    and "id_token tok = Str idToken"
    and "SplitN idToken (CHR ''.'') 3 = hdr # seg # rest"
    and "DecodeString E seg = Inr payload"
    and "Unmarshal E payload = Inr n'"
    and "n' \<noteq> fl_nonce fl"
  shows "responses (fst (callback E fl r wg)) =
           [(401, ''OIDC nonce error: '' @ Quote E n' @ '' != '' @ Quote E (fl_nonce fl) @ nl)] \<and>
         MarshalCalled \<notin> set (fst (callback E fl r wg)) \<and>
         fst (callback E fl r wg) =
           verbose_events (fl_conf fl) r @
           [ExchangeCalled (Values_Get (Query r) (CodeParam (fl_conf fl))), Log (Quote E seg),
            Responded 401
              (''OIDC nonce error: '' @ Quote E n' @ '' != '' @ Quote E (fl_nonce fl) @ nl)]"
proof -
  from flow_nonce_nonempty [OF assms(1,2)] have ne: "fl_nonce fl \<noteq> ''''"
    by auto
  have tr: "fst (callback E fl r wg) =
      verbose_events (fl_conf fl) r @
      [ExchangeCalled (Values_Get (Query r) (CodeParam (fl_conf fl))), Log (Quote E seg),
       Responded 401
         (''OIDC nonce error: '' @ Quote E n' @ '' != '' @ Quote E (fl_nonce fl) @ nl)]"
    using ne assms(3,4) checkNonce_mismatch [OF assms(5-9)]
    by (simp add: callback_def handler_def handler_body_def verbose_events_def Let_def
        http_Error_def StatusUnauthorized_def)
  show ?thesis
    unfolding tr
    by (simp add: responses_append verbose_events_quiet)
qed

theorem nonce_mismatch_rejected_witness:
  "\<exists>fl. main_start Since_1_24 plain_paths NotExist (base_args @ [F_oidc_nonce True])
          [draw_a, draw_b] = Inr fl \<and>
      OIDCNonce (fl_conf fl) \<and> ''other'' \<noteq> fl_nonce fl \<and>
      responses (fst (callback other_provider fl (request_with (fl_state fl)) 1)) =
        [(401, ''OIDC nonce error: '' @ [CHR 0x22] @ ''other'' @ [CHR 0x22] @ '' != '' @
               [CHR 0x22] @ fl_nonce fl @ [CHR 0x22] @ nl)] \<and>
      MarshalCalled \<notin> set (fst (callback other_provider fl (request_with (fl_state fl)) 1))"
proof -
  have cfg: "loadConfig NotExist (base_args @ [F_oidc_nonce True]) =
      Inr (merged NotExist (base_args @ [F_oidc_nonce True]))"
    by (rule loadConfig_base_args) simp_all
  have on0: "OIDCNonce (merged NotExist (base_args @ [F_oidc_nonce True]))"
    by (simp add: base_args_def merged_def)
  have la: "length draw_a = 32" and lb: "length draw_b = 32"
    by (simp_all add: draw_a_def draw_b_def)
  from main_start_runs_nonce [OF cfg _ on0 la lb, of plain_paths _ Since_1_24 "[]"]
  obtain fl where
    run: "main_start Since_1_24 plain_paths NotExist (base_args @ [F_oidc_nonce True])
      [draw_a, draw_b] = Inr fl"
    and cf: "fl_conf fl = merged NotExist (base_args @ [F_oidc_nonce True])"
    by (auto simp add: plain_paths_def)
  have on: "OIDCNonce (fl_conf fl)"
    by (simp add: cf base_args_def merged_def)
  have code: "CodeParam (fl_conf fl) = ''code''"
    by (simp add: cf base_args_def merged_def register_flags_eq builtin_def)
  have len: "length (fl_nonce fl) = 44"
    using run on by (rule flow_nonce_nonempty)
  have ne: "''other'' \<noteq> fl_nonce fl"
  proof
    assume "''other'' = fl_nonce fl"
    then have "length (fl_nonce fl) = 5" by (simp flip: \<open>''other'' = fl_nonce fl\<close>)
    with len show False by simp
  qed
  have st: "Values_Get (Query (request_with (fl_state fl))) ''state'' = fl_state fl"
    by (simp add: request_with_def Values_Get_def)
  have ex: "Exchange other_provider
      (Values_Get (Query (request_with (fl_state fl))) (CodeParam (fl_conf fl))) = Inr other_token"
    by (simp add: other_provider_def)
  have idt: "id_token other_token = Str ''eyJhbGciOiJub25lIn0.eyJub25jZSI6Im90aGVyIn0.sig''"
    by (simp add: other_token_def)
  have sp: "SplitN ''eyJhbGciOiJub25lIn0.eyJub25jZSI6Im90aGVyIn0.sig'' (CHR ''.'') 3 =
      ''eyJhbGciOiJub25lIn0'' # ''eyJub25jZSI6Im90aGVyIn0'' # [''sig'']"
    by (simp add: numeral_3_eq_3)
  have dec: "DecodeString other_provider ''eyJub25jZSI6Im90aGVyIn0'' = Inr other_payload"
    and unm: "Unmarshal other_provider other_payload = Inr ''other''"
    by (simp_all add: other_provider_def)
  note inst = nonce_mismatch_rejected [OF run on st ex idt sp dec unm ne, of 1]
  have q: "Quote other_provider s = [CHR 0x22] @ s @ [CHR 0x22]" for s
    by (simp add: other_provider_def)
  from inst have "responses (fst (callback other_provider fl (request_with (fl_state fl)) 1)) =
      [(401, ''OIDC nonce error: '' @ Quote other_provider ''other'' @ '' != '' @
             Quote other_provider (fl_nonce fl) @ nl)]"
    by (rule conjunct1)
  then have "responses (fst (callback other_provider fl (request_with (fl_state fl)) 1)) =
        [(401, ''OIDC nonce error: '' @ [CHR 0x22] @ ''other'' @ [CHR 0x22] @ '' != '' @
               [CHR 0x22] @ fl_nonce fl @ [CHR 0x22] @ nl)]"
    unfolding q by simp
  moreover from inst
  have "MarshalCalled \<notin> set (fst (callback other_provider fl (request_with (fl_state fl)) 1))"
    by blast
  ultimately
  have "responses (fst (callback other_provider fl (request_with (fl_state fl)) 1)) =
        [(401, ''OIDC nonce error: '' @ [CHR 0x22] @ ''other'' @ [CHR 0x22] @ '' != '' @
               [CHR 0x22] @ fl_nonce fl @ [CHR 0x22] @ nl)]"
    and "MarshalCalled \<notin> set (fst (callback other_provider fl (request_with (fl_state fl)) 1))"
    by blast+
  with run on ne show ?thesis by blast
qed


text \<open>
  The ways through the handler's body, after the verbose branch: a state mismatch, an
  exchange error, a panic inside \<^verbatim>\<open>checkNonce\<close>, a nonce error, a serialization error,
  or the token written with the status 200.
\<close>

lemma handler_body_paths:
  "\<exists>tail. handler_body E cf st n r = verbose_events cf r @ tail \<and>
     (tail = [Responded 401 (''Invalid state: '' @ Values_Get (Query r) ''state'' @ nl)] \<or>
      (\<exists>code err. tail = [ExchangeCalled code, Responded 503 (''Exchange error: '' @ err @ nl)]) \<or>
      (\<exists>code evs p. tail = ExchangeCalled code # evs @ [Panic p]) \<or>
      (\<exists>code evs err.
         tail = ExchangeCalled code # evs @ [Responded 401 (''OIDC nonce error: '' @ err @ nl)]) \<or>
      (\<exists>code evs err.
         tail = ExchangeCalled code # evs @
           [MarshalCalled, Responded 503 (''Token parse error: '' @ err @ nl)]) \<or>
      (\<exists>code evs tokenJSON.
         tail = ExchangeCalled code # evs @
           [MarshalCalled, Log (''result:'' @ nl @ tokenJSON @ nl), Responded 200 tokenJSON]))"
proof (cases "Values_Get (Query r) ''state'' = st")
  case False
  then show ?thesis by (simp add: handler_body_mismatch)
next
  case True
  let ?code = "Values_Get (Query r) (CodeParam cf)"
  show ?thesis
  proof (cases "Exchange E ?code")
    case (Inl err)
    with True show ?thesis
      by (simp add: handler_body_def verbose_events_def Let_def http_Error_def
          StatusServiceUnavailable_def)
  next
    case (Inr token)
    obtain evs res where cn:
      "(if n \<noteq> '''' then checkNonce E n token else ([], Returned None)) = (evs, res)"
      by (cases "if n \<noteq> '''' then checkNonce E n token else ([], Returned None)")
    have body: "handler_body E cf st n r = verbose_events cf r @ ExchangeCalled ?code #
        (case res of
           Panicked p \<Rightarrow> evs @ [Panic p]
         | Returned (Some err) \<Rightarrow>
             evs @ http_Error (''OIDC nonce error: '' @ err) StatusUnauthorized
         | Returned None \<Rightarrow>
             evs @ MarshalCalled #
             (case MarshalIndent E token of
                Inl err \<Rightarrow> http_Error (''Token parse error: '' @ err) StatusServiceUnavailable
              | Inr tokenJSON \<Rightarrow>
                  [Log (''result:'' @ nl @ tokenJSON @ nl), Responded StatusOK tokenJSON]))"
      using True Inr cn
      by (simp add: handler_body_def verbose_events_def Let_def split: outcome.splits
          option.splits)
    show ?thesis
    proof (cases res)
      case (Panicked p)
      then show ?thesis unfolding body by simp
    next
      case (Returned e)
      show ?thesis
      proof (cases e)
        case (Some err)
        with Returned show ?thesis
          unfolding body by (simp add: http_Error_def StatusUnauthorized_def)
      next
        case None
        with Returned show ?thesis
          unfolding body
          by (cases "MarshalIndent E token")
             (simp_all add: http_Error_def StatusServiceUnavailable_def StatusOK_def)
      qed
    qed
  qed
qed


text \<open>
  C9. The handler decrements the wait group exactly once whatever its body did (the
  decrement is deferred before the first branch), so after one handled request the
  counter that \<^verbatim>\<open>main\<close> set to one is zero, \<^verbatim>\<open>wg.Wait()\<close> returns and \<^verbatim>\<open>main\<close> calls
  \<^verbatim>\<open>server.Shutdown\<close>.
\<close>

theorem callback_signals_once:
  "snd (callback E fl r wg) = wg - 1 \<and>
   main_serve E fl r = Some (fst (callback E fl r 1) @ [ServerShutdown])"
  by (simp add: callback_def handler_def main_serve_def)

end
